theory Spec2Isabelle
  imports Main
begin

section \<open>Strings, numbers and values of the script\<close>

text \<open>
  The dashboard script \<^verbatim>\<open>app.js\<close> works on JavaScript strings, which are sequences of
  16-bit code units. A string is modelled as the list of its code units; \<open>lit\<close> turns an
  ASCII literal into such a list. The two status markers of the script are the code
  points U+2705 and U+274C, each followed by a space.
\<close>

type_synonym jsstring = "nat list"

definition lit :: "string \<Rightarrow> jsstring" where
  "lit s = map of_char s"

definition ok_mark :: jsstring where
  "ok_mark = [0x2705, 0x20]"

definition fail_mark :: jsstring where
  "fail_mark = [0x274C, 0x20]"

text \<open>
  \<^verbatim>\<open>String.prototype.trim\<close> removes white space and line terminators at both ends:
  TAB, LF, VT, FF, CR, SP, NBSP, U+1680, U+2000 to U+200A, U+2028, U+2029, U+202F,
  U+205F, U+3000 and U+FEFF.
\<close>

definition is_ws :: "nat \<Rightarrow> bool" where
  "is_ws c = (c \<in> {9, 10, 11, 12, 13, 32, 160, 5760, 8232, 8233, 8239, 8287, 12288, 65279}
              \<or> (8192 \<le> c \<and> c \<le> 8202))"

definition trim :: "jsstring \<Rightarrow> jsstring" where
  "trim s = rev (dropWhile is_ws (rev (dropWhile is_ws s)))"

text \<open>
  Numbers. The script produces numbers with \<^verbatim>\<open>parseInt\<close> and reads them from response
  bodies (the key count). A number is \<open>NaN\<close>, an infinity, or \<open>Num n\<close>: the double
  nearest to the integer \<open>n\<close>, which is \<open>n\<close> itself up to \<open>2\<^sup>5\<^sup>3\<close>. Doubles with a
  fractional part are not represented. Minus zero is \<open>Num 0\<close>: the script cannot tell
  them apart.

  \<open>round_double\<close> rounds a natural number to the nearest double, ties to the even
  significand; \<open>to_double\<close> adds the sign and the overflow to an infinity.
\<close>

datatype number = NaN | PosInf | NegInf | Num int

function bits :: "nat \<Rightarrow> nat" where
  "bits n = (if n = 0 then 0 else Suc (bits (n div 2)))"
  by pat_completeness auto
termination
  by (relation "measure id") auto

declare bits.simps [simp del]

definition round_double :: "nat \<Rightarrow> nat" where
  "round_double n =
     (if bits n \<le> 53 then n
      else let e = bits n - 53; q = n div 2 ^ e; r = n mod 2 ^ e; h = 2 ^ (e - 1)
           in (if h < r \<or> (r = h \<and> odd q) then q + 1 else q) * 2 ^ e)"

definition to_double :: "int \<Rightarrow> number" where
  "to_double n =
     (let m = round_double (nat \<bar>n\<bar>)
      in if 2 ^ 1024 \<le> m then (if n < 0 then NegInf else PosInf)
         else Num (if n < 0 then - int m else int m))"

text \<open>
  \<^verbatim>\<open>parseInt(s)\<close> with no radix: leading white space is skipped, a sign is read, a
  prefix \<^verbatim>\<open>0x\<close> or \<^verbatim>\<open>0X\<close> switches to radix 16, and the longest prefix of digits of
  the radix is the value, rounded to a double. With no digit the result is \<open>NaN\<close>.
\<close>

definition digit_val :: "nat \<Rightarrow> nat option" where
  "digit_val c =
     (if 48 \<le> c \<and> c \<le> 57 then Some (c - 48)
      else if 97 \<le> c \<and> c \<le> 122 then Some (c - 87)
      else if 65 \<le> c \<and> c \<le> 90 then Some (c - 55)
      else None)"

definition is_digit :: "nat \<Rightarrow> nat \<Rightarrow> bool" where
  "is_digit R c = (case digit_val c of None \<Rightarrow> False | Some d \<Rightarrow> d < R)"

definition digit_of :: "nat \<Rightarrow> nat" where
  "digit_of c = (case digit_val c of None \<Rightarrow> 0 | Some d \<Rightarrow> d)"

fun strip_sign :: "jsstring \<Rightarrow> int \<times> jsstring" where
  "strip_sign [] = (1, [])"
| "strip_sign (c # cs) =
     (if c = 45 then (- 1, cs) else if c = 43 then (1, cs) else (1, c # cs))"

fun strip_prefix :: "jsstring \<Rightarrow> nat \<times> jsstring" where
  "strip_prefix (a # b # cs) =
     (if a = 48 \<and> (b = 120 \<or> b = 88) then (16, cs) else (10, a # b # cs))"
| "strip_prefix cs = (10, cs)"

definition parseInt :: "jsstring \<Rightarrow> number" where
  "parseInt s =
     (case strip_sign (dropWhile is_ws s) of (sign, S1) \<Rightarrow>
      case strip_prefix S1 of (R, S2) \<Rightarrow>
        let Z = takeWhile (is_digit R) S2
        in if Z = [] then NaN
           else to_double (sign * int (foldl (\<lambda>a c. a * R + digit_of c) 0 Z)))"

text \<open>
  Values: what \<^verbatim>\<open>res.json()\<close> returns, what a property access yields and what the
  script passes to \<^verbatim>\<open>JSON.stringify\<close>. An object is the list of its own properties,
  each name once.
\<close>

datatype jsvalue =
    JUndefined
  | JNull
  | JBool bool
  | JNum number
  | JStr jsstring
  | JArr "jsvalue list"
  | JObj "(jsstring \<times> jsvalue) list"

datatype exn = TypeError | SyntaxError | NetworkError

text \<open>
  Property access \<^verbatim>\<open>v.name\<close> for the names the script reads (\<^verbatim>\<open>detail\<close>,
  \<^verbatim>\<open>message\<close>, \<^verbatim>\<open>keys\<close>, \<^verbatim>\<open>count\<close>): a \<^verbatim>\<open>TypeError\<close> on \<^verbatim>\<open>null\<close> and
  \<^verbatim>\<open>undefined\<close>, the own property of an object if there is one, \<^verbatim>\<open>undefined\<close> on a
  boolean, number or string. On an array \<^verbatim>\<open>keys\<close> is a method, on which the script's
  \<^verbatim>\<open>forEach\<close> call raises the same \<^verbatim>\<open>TypeError\<close> as on \<^verbatim>\<open>undefined\<close>.
\<close>

fun get_prop :: "jsvalue \<Rightarrow> jsstring \<Rightarrow> exn + jsvalue" where
  "get_prop JUndefined name = Inl TypeError"
| "get_prop JNull name = Inl TypeError"
| "get_prop (JObj kvs) name = (case map_of kvs name of None \<Rightarrow> Inr JUndefined | Some v \<Rightarrow> Inr v)"
| "get_prop v name = Inr JUndefined"

text \<open>Truthiness, and the operator \<^verbatim>\<open>a || b\<close>.\<close>

fun truthy :: "jsvalue \<Rightarrow> bool" where
  "truthy JUndefined = False"
| "truthy JNull = False"
| "truthy (JBool b) = b"
| "truthy (JNum NaN) = False"
| "truthy (JNum PosInf) = True"
| "truthy (JNum NegInf) = True"
| "truthy (JNum (Num n)) = (n \<noteq> 0)"
| "truthy (JStr s) = (s \<noteq> [])"
| "truthy (JArr xs) = True"
| "truthy (JObj kvs) = True"

definition js_or :: "jsvalue \<Rightarrow> jsvalue \<Rightarrow> jsvalue" where
  "js_or a b = (if truthy a then a else b)"

text \<open>
  The text of a number. A double below \<open>2\<^sup>5\<^sup>3\<close> prints its decimal digits. A larger
  one prints the shortest digits that still round to it (the nearer candidate when
  two have the same length, the even one on a tie), filled with zeros up to 21
  digits and in exponent form beyond.
\<close>

function digits :: "nat \<Rightarrow> jsstring" where
  "digits n = (if n < 10 then [48 + n] else digits (n div 10) @ [48 + n mod 10])"
  by pat_completeness auto
termination
  by (relation "measure id") auto

declare digits.simps [simp del]

definition nearer :: "nat \<Rightarrow> nat \<Rightarrow> nat option" where
  "nearer x p =
     (let lo = (x div p) * p; hi = lo + p;
          l = (round_double lo = x); h = (round_double hi = x)
      in if l \<and> h then
           (if x - lo < hi - x then Some lo
            else if hi - x < x - lo then Some hi
            else if even (x div p) then Some lo else Some hi)
         else if l then Some lo
         else if h then Some hi
         else None)"

function shortest :: "nat \<Rightarrow> nat \<Rightarrow> nat" where
  "shortest x j =
     (if j = 0 then x
      else case nearer x (10 ^ j) of Some c \<Rightarrow> c | None \<Rightarrow> shortest x (j - 1))"
  by pat_completeness auto
termination
  by (relation "measure snd") auto

declare shortest.simps [simp del]

definition strip_zeros :: "jsstring \<Rightarrow> jsstring" where
  "strip_zeros ds = rev (dropWhile (\<lambda>c. c = 48) (rev ds))"

definition print_double :: "nat \<Rightarrow> jsstring" where
  "print_double x =
     (if x < 2 ^ 53 then digits x
      else let ds = digits (shortest x (length (digits x) - 1)); n = length ds
           in if n \<le> 21 then ds
              else case strip_zeros ds of
                     [] \<Rightarrow> ds
                   | [d] \<Rightarrow> d # lit ''e+'' @ digits (n - 1)
                   | d # rest \<Rightarrow> d # 46 # rest @ lit ''e+'' @ digits (n - 1))"

definition number_to_string :: "number \<Rightarrow> jsstring" where
  "number_to_string x =
     (case x of
        NaN \<Rightarrow> lit ''NaN''
      | PosInf \<Rightarrow> lit ''Infinity''
      | NegInf \<Rightarrow> lit ''-Infinity''
      | Num n \<Rightarrow>
          (case to_double n of
             Num m \<Rightarrow> if m < 0 then 45 # print_double (nat (- m)) else print_double (nat m)
           | _ \<Rightarrow> if n < 0 then lit ''-Infinity'' else lit ''Infinity''))"

text \<open>
  Conversion to a string, as string concatenation, template literals, \<^verbatim>\<open>alert\<close> and
  the setters of the page perform it. An array prints its elements separated by
  commas, with nothing for \<^verbatim>\<open>null\<close> and \<^verbatim>\<open>undefined\<close>. An object prints as
  \<^verbatim>\<open>[object Object]\<close>, unless it has a property \<^verbatim>\<open>toString\<close> of its own: a parsed
  value is never callable, the inherited \<^verbatim>\<open>valueOf\<close> returns the object, and the
  conversion raises a \<^verbatim>\<open>TypeError\<close>. The first element of an array that raises
  ends the conversion of the array.
\<close>

fun join_comma :: "jsstring list \<Rightarrow> jsstring" where
  "join_comma [] = []"
| "join_comma [s] = s"
| "join_comma (s # t # ss) = s @ 44 # join_comma (t # ss)"

fun first_error :: "(exn + 'a) list \<Rightarrow> exn + 'a list" where
  "first_error [] = Inr []"
| "first_error (Inl e # rs) = Inl e"
| "first_error (Inr a # rs) =
     (case first_error rs of Inl e \<Rightarrow> Inl e | Inr as \<Rightarrow> Inr (a # as))"

fun to_string :: "jsvalue \<Rightarrow> exn + jsstring" where
  "to_string JUndefined = Inr (lit ''undefined'')"
| "to_string JNull = Inr (lit ''null'')"
| "to_string (JBool b) = Inr (if b then lit ''true'' else lit ''false'')"
| "to_string (JNum x) = Inr (number_to_string x)"
| "to_string (JStr s) = Inr s"
| "to_string (JArr xs) =
     (case first_error
             (map (\<lambda>x. if x = JUndefined \<or> x = JNull then Inr [] else to_string x) xs) of
        Inl e \<Rightarrow> Inl e
      | Inr ss \<Rightarrow> Inr (join_comma ss))"
| "to_string (JObj kvs) =
     (case map_of kvs (lit ''toString'') of
        None \<Rightarrow> Inr (lit ''[object Object]'')
      | Some _ \<Rightarrow> Inl TypeError)"

text \<open>
  Assigning a value to \<^verbatim>\<open>innerText\<close> or to the \<^verbatim>\<open>value\<close> of an input converts it to
  a string, with \<^verbatim>\<open>null\<close> becoming the empty string. The inputs of the page are
  single-line text inputs: assigning to the \<^verbatim>\<open>value\<close> of one removes the line breaks
  (LF and CR) from the string.
\<close>

definition dom_string :: "jsvalue \<Rightarrow> exn + jsstring" where
  "dom_string v = (if v = JNull then Inr [] else to_string v)"


text \<open>
  \<^verbatim>\<open>JSON.stringify\<close> is kept at the level of the JSON value whose text it writes:
  \<open>NaN\<close> and the infinities are written as \<^verbatim>\<open>null\<close>, a number as the double it is,
  a property whose value is \<^verbatim>\<open>undefined\<close> is left out, an \<^verbatim>\<open>undefined\<close> array element
  is written as \<^verbatim>\<open>null\<close>.
\<close>

fun json_of :: "jsvalue \<Rightarrow> jsvalue" where
  "json_of (JNum NaN) = JNull"
| "json_of (JNum PosInf) = JNull"
| "json_of (JNum NegInf) = JNull"
| "json_of (JNum (Num n)) = (case to_double n of Num m \<Rightarrow> JNum (Num m) | _ \<Rightarrow> JNull)"
| "json_of (JArr xs) = JArr (map (\<lambda>x. if x = JUndefined then JNull else json_of x) xs)"
| "json_of (JObj kvs) =
     JObj (map (\<lambda>kv. (fst kv, json_of (snd kv))) (filter (\<lambda>kv. snd kv \<noteq> JUndefined) kvs))"
| "json_of v = v"

section \<open>The page, the network and the log of one chain\<close>

text \<open>
  The page holds the elements the script looks up by id. An element that the page
  lacks is \<open>None\<close>: reading a property of it raises a \<^verbatim>\<open>TypeError\<close>. The inputs are
  kept by their current \<^verbatim>\<open>value\<close>, the status line by its text and colour, an output
  area by its content, the key list by its entries. An entry carries its text and
  its click handler; the handler is the closure of \<^verbatim>\<open>loadKeys\<close> over the key \<^verbatim>\<open>k\<close>.
\<close>

record status_line =
  status_text :: jsstring
  status_color :: jsstring

datatype content = Text jsstring | Pretty jsvalue
  \<comment> \<open>\<open>Pretty v\<close> is the text \<^verbatim>\<open>JSON.stringify(v, null, 2)\<close>\<close>

datatype handler = Fill_and_get jsvalue

record li =
  li_text :: jsstring
  li_onclick :: handler

record request =
  req_method :: jsstring
  req_url :: jsstring
  req_headers :: "(jsstring \<times> jsstring) list"
  req_body :: "jsvalue option"

text \<open>
  A response is seen through \<^verbatim>\<open>res.ok\<close> and \<^verbatim>\<open>res.json()\<close>; \<open>body_json\<close> is \<open>None\<close>
  when the body is not JSON text, and \<^verbatim>\<open>res.json()\<close> rejects. \<^verbatim>\<open>fetch\<close> itself
  rejects when no response arrives.
\<close>

record response =
  ok :: bool
  body_json :: "jsvalue option"

datatype fetch_result = Fulfilled response | Rejected

type_synonym net = "request \<Rightarrow> fetch_result"

text \<open>
  The log records, in order, what one chain does towards the outside: a request sent,
  its response received, a body read with \<^verbatim>\<open>res.json()\<close>, an \<^verbatim>\<open>alert\<close>, and the call of
  \<^verbatim>\<open>loadKeys\<close> or \<^verbatim>\<open>loadStats\<close> from another operation.
\<close>

datatype callee = LoadKeys | LoadStats

datatype event =
    Sent request
  | Received request response
  | BodyRead request
  | Alert jsstring
  | Called callee

record page =
  statusBox :: "status_line option"
  key_input :: "jsstring option"
  value_input :: "jsstring option"
  ttl_input :: "jsstring option"
  getKey_input :: "jsstring option"
  delKey_input :: "jsstring option"
  getResult :: "content option"
  keysList :: "li list option"
  statsBox :: "content option"
  trace :: "event list"

definition log :: "event \<Rightarrow> page \<Rightarrow> page" where
  "log e p = p\<lparr>trace := trace p @ [e]\<rparr>"

text \<open>
  \<^verbatim>\<open>await fetch(...)\<close> in two steps: the request leaves at the call; the function
  resumes with the response, or raises when the fetch rejects.
\<close>

definition send :: "request \<Rightarrow> page \<Rightarrow> page" where
  "send r p = log (Sent r) p"

definition await_fetch :: "net \<Rightarrow> request \<Rightarrow> page \<Rightarrow> (exn + response) \<times> page" where
  "await_fetch net r p =
     (case net r of
        Rejected \<Rightarrow> (Inl NetworkError, p)
      | Fulfilled res \<Rightarrow> (Inr res, log (Received r res) p))"

definition fetch :: "net \<Rightarrow> request \<Rightarrow> page \<Rightarrow> (exn + response) \<times> page" where
  "fetch net r p = await_fetch net r (send r p)"

definition read_json :: "request \<Rightarrow> response \<Rightarrow> page \<Rightarrow> (exn + jsvalue) \<times> page" where
  "read_json r res p =
     (case body_json res of
        None \<Rightarrow> (Inl SyntaxError, log (BodyRead r) p)
      | Some d \<Rightarrow> (Inr d, log (BodyRead r) p))"

text \<open>A page after a request has been answered, and after the answer's body has been read.\<close>

abbreviation answered :: "request \<Rightarrow> response \<Rightarrow> page \<Rightarrow> page" where
  "answered r res p \<equiv> log (Received r res) (log (Sent r) p)"

abbreviation answered_read :: "request \<Rightarrow> response \<Rightarrow> page \<Rightarrow> page" where
  "answered_read r res p \<equiv> log (BodyRead r) (log (Received r res) (log (Sent r) p))"

definition get_request :: "jsstring \<Rightarrow> request" where
  "get_request u = \<lparr>req_method = lit ''GET'', req_url = u, req_headers = [], req_body = None\<rparr>"

definition set_request :: "jsstring \<Rightarrow> jsstring \<Rightarrow> jsvalue \<Rightarrow> request" where
  "set_request key val ttl =
     \<lparr>req_method = lit ''POST'', req_url = lit ''/set'',
      req_headers = [(lit ''Content-Type'', lit ''application/json'')],
      req_body = Some (json_of (JObj [(lit ''key'', JStr key), (lit ''value'', JStr val),
                                      (lit ''ttl'', ttl)]))\<rparr>"

definition delete_request :: "jsstring \<Rightarrow> request" where
  "delete_request key =
     \<lparr>req_method = lit ''DELETE'', req_url = lit ''/delete/'' @ key, req_headers = [],
      req_body = None\<rparr>"

definition clear_request :: request where
  "clear_request =
     \<lparr>req_method = lit ''DELETE'', req_url = lit ''/clear'', req_headers = [], req_body = None\<rparr>"

definition compact_request :: request where
  "compact_request =
     \<lparr>req_method = lit ''POST'', req_url = lit ''/compact'', req_headers = [], req_body = None\<rparr>"

section \<open>The operations of app.js\<close>

text \<open>
  Every operation takes the network and the page and returns the exception it ended
  with, if any, and the page it leaves. The network gives, for each request, the
  outcome of its \<^verbatim>\<open>fetch\<close>; no chain of the script sends the same request twice. An
  operation that another one calls without \<^verbatim>\<open>await\<close> runs to its end within the
  chain; its exception is not the caller's. What other chains do to the page in
  between is outside this model: an operation is followed from the event that
  starts it to the end of the last function it has called.
\<close>

definition showStatus :: "jsstring \<Rightarrow> bool \<Rightarrow> page \<Rightarrow> page" where
  "showStatus msg okf p =
     (case statusBox p of
        None \<Rightarrow> p
      | Some _ \<Rightarrow>
          p\<lparr>statusBox := Some \<lparr>status_text = msg,
                status_color = (if okf then lit ''green'' else lit ''red'')\<rparr>\<rparr>)"

definition getKey :: "net \<Rightarrow> page \<Rightarrow> exn option \<times> page" where
  "getKey net p =
     (case getKey_input p of
        None \<Rightarrow> (Some TypeError, p)
      | Some raw \<Rightarrow>
          let key = trim raw; req = get_request (lit ''/get/'' @ key) in
          (case fetch net req p of
            (Inl e, p1) \<Rightarrow> (Some e, p1)
          | (Inr res, p1) \<Rightarrow>
              (case read_json req res p1 of
                 (Inl e, p2) \<Rightarrow> (Some e, p2)
               | (Inr data, p2) \<Rightarrow>
                   if ok res then
                     (case getResult p2 of
                        None \<Rightarrow> (Some TypeError, p2)
                      | Some _ \<Rightarrow>
                          (None, showStatus (ok_mark @ lit ''Key fetched successfully'') True
                                   (p2\<lparr>getResult := Some (Pretty data)\<rparr>)))
                   else
                     (case getResult p2 of
                        None \<Rightarrow> (Some TypeError, p2)
                      | Some _ \<Rightarrow>
                          (None, showStatus (fail_mark @ lit ''Key not found'') False
                                   (p2\<lparr>getResult := Some (Text (lit ''Key not found''))\<rparr>))))))"

text \<open>
  \<^verbatim>\<open>loadKeys\<close> up to its first \<^verbatim>\<open>await\<close>, and from there on. The first part tells
  whether the function is suspended at the fetch (\<open>True\<close>) or has returned.
\<close>

definition make_li :: "jsvalue \<Rightarrow> exn + li" where
  "make_li k =
     (case dom_string k of
        Inl e \<Rightarrow> Inl e
      | Inr s \<Rightarrow> Inr \<lparr>li_text = s, li_onclick = Fill_and_get k\<rparr>)"

definition appendChild :: "li \<Rightarrow> page \<Rightarrow> page" where
  "appendChild e p = p\<lparr>keysList := map_option (\<lambda>es. es @ [e]) (keysList p)\<rparr>"

text \<open>
  The body of \<^verbatim>\<open>data.keys.forEach\<close>: an entry is made for each key and appended to the
  list; a key whose conversion to the entry's text raises ends the loop, the entries
  made before it staying in the list.
\<close>

fun forEach_key :: "jsvalue list \<Rightarrow> page \<Rightarrow> exn option \<times> page" where
  "forEach_key [] p = (None, p)"
| "forEach_key (k # ks) p =
     (case make_li k of
        Inl e \<Rightarrow> (Some e, p)
      | Inr e \<Rightarrow> forEach_key ks (appendChild e p))"

text \<open>What the loop leaves: the entries it has made, and the exception that ended it.\<close>

fun made_entries :: "jsvalue list \<Rightarrow> li list" where
  "made_entries [] = []"
| "made_entries (k # ks) =
     (case make_li k of Inl e \<Rightarrow> [] | Inr e \<Rightarrow> e # made_entries ks)"

fun forEach_error :: "jsvalue list \<Rightarrow> exn option" where
  "forEach_error [] = None"
| "forEach_error (k # ks) =
     (case make_li k of Inl e \<Rightarrow> Some e | Inr e \<Rightarrow> forEach_error ks)"

definition loadKeys_start :: "page \<Rightarrow> bool \<times> page" where
  "loadKeys_start p =
     (case keysList p of
        None \<Rightarrow> (False, p)
      | Some _ \<Rightarrow> (True, send (get_request (lit ''/keys'')) (p\<lparr>keysList := Some []\<rparr>)))"

definition loadKeys_finish :: "net \<Rightarrow> page \<Rightarrow> exn option \<times> page" where
  "loadKeys_finish net p =
     (let req = get_request (lit ''/keys'') in
      case await_fetch net req p of
        (Inl e, p1) \<Rightarrow> (Some e, p1)
      | (Inr res, p1) \<Rightarrow>
          (case read_json req res p1 of
             (Inl e, p2) \<Rightarrow> (Some e, p2)
           | (Inr data, p2) \<Rightarrow>
               (case get_prop data (lit ''keys'') of
                  Inl e \<Rightarrow> (Some e, p2)
                | Inr (JArr ks) \<Rightarrow>
                    (case forEach_key ks p2 of
                       (Some e, p3) \<Rightarrow> (Some e, p3)
                     | (None, p3) \<Rightarrow>
                         (case get_prop data (lit ''count'') of
                            Inl e \<Rightarrow> (Some e, p3)
                          | Inr c \<Rightarrow>
                              (case to_string c of
                                 Inl e \<Rightarrow> (Some e, p3)
                               | Inr s \<Rightarrow>
                                   (None, showStatus (ok_mark @ lit ''Keys loaded ('' @ s
                                                        @ lit '')'') True p3))))
                | Inr _ \<Rightarrow> (Some TypeError, p2))))"

definition loadKeys :: "net \<Rightarrow> page \<Rightarrow> exn option \<times> page" where
  "loadKeys net p =
     (case loadKeys_start p of
        (False, p1) \<Rightarrow> (None, p1)
      | (True, p1) \<Rightarrow> loadKeys_finish net p1)"


definition ttl_of :: "jsstring \<Rightarrow> jsvalue" where
  "ttl_of ttlRaw = (if ttlRaw \<noteq> [] then JNum (parseInt ttlRaw) else JNull)"

definition setKey :: "net \<Rightarrow> page \<Rightarrow> exn option \<times> page" where
  "setKey net p =
     (case key_input p of
        None \<Rightarrow> (Some TypeError, p)
      | Some kraw \<Rightarrow>
     (case value_input p of
        None \<Rightarrow> (Some TypeError, p)
      | Some vraw \<Rightarrow>
     (case ttl_input p of
        None \<Rightarrow> (Some TypeError, p)
      | Some traw \<Rightarrow>
          let key = trim kraw; val = trim vraw; ttlRaw = trim traw;
              ttl = ttl_of ttlRaw;
              req = set_request key val ttl in
          (case fetch net req p of
            (Inl e, p1) \<Rightarrow> (Some e, p1)
          | (Inr res, p1) \<Rightarrow>
              if ok res then
                (None, snd (loadKeys net (log (Called LoadKeys)
                         (showStatus (ok_mark @ lit ''Key saved successfully'') True p1))))
              else
                (case read_json req res p1 of
                   (Inl e, p2) \<Rightarrow> (Some e, p2)
                 | (Inr data, p2) \<Rightarrow>
                     (case get_prop data (lit ''detail'') of
                        Inl e \<Rightarrow> (Some e, p2)
                      | Inr d \<Rightarrow>
                          (case to_string (js_or d (JStr (lit ''Error''))) of
                             Inl e \<Rightarrow> (Some e, p2)
                           | Inr s \<Rightarrow> (None, showStatus (fail_mark @ s) False p2))))))))"

definition deleteKey :: "net \<Rightarrow> page \<Rightarrow> exn option \<times> page" where
  "deleteKey net p =
     (case delKey_input p of
        None \<Rightarrow> (Some TypeError, p)
      | Some raw \<Rightarrow>
          let key = trim raw; req = delete_request key in
          (case fetch net req p of
            (Inl e, p1) \<Rightarrow> (Some e, p1)
          | (Inr res, p1) \<Rightarrow>
              (case read_json req res p1 of
                 (Inl e, p2) \<Rightarrow> (Some e, p2)
               | (Inr data, p2) \<Rightarrow>
                   if ok res then
                     (None, snd (loadKeys net (log (Called LoadKeys)
                              (showStatus (ok_mark @ lit ''Key deleted: '' @ key) True p2))))
                   else
                     (case get_prop data (lit ''detail'') of
                        Inl e \<Rightarrow> (Some e, p2)
                      | Inr d \<Rightarrow>
                          (case to_string (js_or d (JStr (lit ''Error''))) of
                             Inl e \<Rightarrow> (Some e, p2)
                           | Inr s \<Rightarrow> (None, showStatus (fail_mark @ s) False p2))))))"

definition clearAll :: "net \<Rightarrow> page \<Rightarrow> exn option \<times> page" where
  "clearAll net p =
     (let req = clear_request in
      case fetch net req p of
        (Inl e, p1) \<Rightarrow> (Some e, p1)
      | (Inr res, p1) \<Rightarrow>
          (case read_json req res p1 of
             (Inl e, p2) \<Rightarrow> (Some e, p2)
           | (Inr data, p2) \<Rightarrow>
               if ok res then
                 (case get_prop data (lit ''message'') of
                    Inl e \<Rightarrow> (Some e, p2)
                  | Inr m \<Rightarrow>
                      (case to_string m of
                         Inl e \<Rightarrow> (Some e, p2)
                       | Inr s \<Rightarrow>
                           (case loadKeys_start (log (Called LoadKeys)
                                   (showStatus (ok_mark @ s) True p2)) of
                              (pending, p3) \<Rightarrow>
                                let p4 = p3\<lparr>getResult :=
                                            map_option (\<lambda>_. Text []) (getResult p3)\<rparr>
                                in (None, if pending then snd (loadKeys_finish net p4)
                                          else p4))))
               else
                 (None, showStatus (fail_mark @ lit ''Error clearing store'') False p2)))"

definition loadStats :: "net \<Rightarrow> page \<Rightarrow> exn option \<times> page" where
  "loadStats net p =
     (let req = get_request (lit ''/stats'') in
      case fetch net req p of
        (Inl e, p1) \<Rightarrow> (Some e, p1)
      | (Inr res, p1) \<Rightarrow>
          (case read_json req res p1 of
             (Inl e, p2) \<Rightarrow> (Some e, p2)
           | (Inr data, p2) \<Rightarrow>
               (case statsBox p2 of
                  None \<Rightarrow> (Some TypeError, p2)
                | Some _ \<Rightarrow> (None, p2\<lparr>statsBox := Some (Pretty data)\<rparr>))))"

definition compactWAL :: "net \<Rightarrow> page \<Rightarrow> exn option \<times> page" where
  "compactWAL net p =
     (let req = compact_request in
      case fetch net req p of
        (Inl e, p1) \<Rightarrow> (Some e, p1)
      | (Inr res, p1) \<Rightarrow>
          (case read_json req res p1 of
             (Inl e, p2) \<Rightarrow> (Some e, p2)
           | (Inr data, p2) \<Rightarrow>
               (case get_prop data (lit ''message'') of
                  Inl e \<Rightarrow> (Some e, p2)
                | Inr m \<Rightarrow>
                    (case to_string (js_or m (JStr (lit ''WAL compacted''))) of
                       Inl e \<Rightarrow> (Some e, p2)
                     | Inr s \<Rightarrow>
                         (None, snd (loadStats net (log (Called LoadStats)
                                  (log (Alert s) p2))))))))"

text \<open>The page's load handler.\<close>

definition onload :: "net \<Rightarrow> page \<Rightarrow> page" where
  "onload net p = snd (loadKeys net p)"

section \<open>Concrete pages and networks\<close>

text \<open>
  Pages with every element present, networks that fail or answer every request with
  one response, and a network that answers each request of the script as the store
  does. They are the inputs at which the statements below are evaluated.
\<close>

definition page_demo :: page where
  "page_demo =
     \<lparr>statusBox = Some \<lparr>status_text = [], status_color = []\<rparr>,
      key_input = Some (lit ''alpha''), value_input = Some (lit ''1''), ttl_input = Some [],
      getKey_input = Some (lit ''alpha''), delKey_input = Some (lit ''alpha''),
      getResult = Some (Text []), keysList = Some [], statsBox = Some (Text []),
      trace = []\<rparr>"

definition net_down :: net where
  "net_down r = Rejected"

definition reply :: "response \<Rightarrow> net" where
  "reply res r = Fulfilled res"

definition res_not_found :: response where
  "res_not_found =
     \<lparr>ok = False, body_json = Some (JObj [(lit ''detail'', JStr (lit ''Key not found''))])\<rparr>"

definition res_no_detail :: response where
  "res_no_detail = \<lparr>ok = False, body_json = Some (JObj [])\<rparr>"

definition res_empty_detail :: response where
  "res_empty_detail = \<lparr>ok = False, body_json = Some (JObj [(lit ''detail'', JStr [])])\<rparr>"

definition res_failed_text :: response where
  "res_failed_text = \<lparr>ok = False, body_json = None\<rparr>"

definition res_ok_text :: response where
  "res_ok_text = \<lparr>ok = True, body_json = None\<rparr>"

definition res_deleted :: response where
  "res_deleted = \<lparr>ok = True, body_json = Some (JObj [(lit ''message'', JStr (lit ''deleted''))])\<rparr>"

definition res_cleared :: response where
  "res_cleared =
     \<lparr>ok = True, body_json = Some (JObj [(lit ''message'', JStr (lit ''All keys cleared''))])\<rparr>"

definition res_keys :: response where
  "res_keys =
     \<lparr>ok = True,
      body_json = Some (JObj [(lit ''keys'', JArr [JStr (lit '' a''), JStr (lit ''b'')]),
                              (lit ''count'', JNum (Num 2))])\<rparr>"

definition res_compacted :: response where
  "res_compacted =
     \<lparr>ok = True, body_json = Some (JObj [(lit ''message'', JStr (lit ''Compaction done''))])\<rparr>"

definition res_ok_null :: response where
  "res_ok_null = \<lparr>ok = True, body_json = Some JNull\<rparr>"

definition res_null_failed :: response where
  "res_null_failed = \<lparr>ok = False, body_json = Some JNull\<rparr>"

definition res_saved :: response where
  "res_saved = \<lparr>ok = True, body_json = Some (JObj [(lit ''message'', JStr (lit ''saved''))])\<rparr>"

definition res_stats :: response where
  "res_stats = \<lparr>ok = True, body_json = Some (JObj [(lit ''total_keys'', JNum (Num 2))])\<rparr>"


definition res_found :: response where
  "res_found =
     \<lparr>ok = True,
      body_json = Some (JObj [(lit ''key'', JStr (lit ''alpha'')), (lit ''value'', JStr (lit ''1'')),
                              (lit ''ttl'', JNull)])\<rparr>"

definition res_message_object :: response where
  "res_message_object =
     \<lparr>ok = True,
      body_json = Some (JObj [(lit ''message'', JObj [(lit ''toString'', JNum (Num 1))])])\<rparr>"

definition net_demo :: net where
  "net_demo r =
     (if req_url r = lit ''/keys'' then Fulfilled res_keys
      else if req_url r = lit ''/clear'' then Fulfilled res_cleared
      else if req_url r = lit ''/compact'' then Fulfilled res_compacted
      else if req_url r = lit ''/stats'' then Fulfilled res_stats
      else if req_url r = lit ''/set'' then Fulfilled res_saved
      else if req_url r = lit ''/delete/alpha'' then Fulfilled res_deleted
      else if req_url r = lit ''/get/alpha'' then Fulfilled res_found
      else if req_url r = lit ''/get/b'' then Fulfilled res_not_found
      else Rejected)"

definition page_shown :: page where
  "page_shown =
     page_demo\<lparr>getResult := Some (Text (lit ''old result'')),
                keysList := Some [\<lparr>li_text = lit ''old'',
                                   li_onclick = Fill_and_get (JStr (lit ''old''))\<rparr>]\<rparr>"

section \<open>What an operation adds to the log\<close>

lemma trace_log: "trace (log e p) = trace p @ [e]"
  by (simp add: log_def)

lemma trace_showStatus: "trace (showStatus m b p) = trace p"
  by (simp add: showStatus_def split: option.split)

text \<open>The loop over the keys changes the list of the page and nothing else.\<close>

lemma forEach_key_eq:
  "forEach_key ks p
     = (forEach_error ks,
        p\<lparr>keysList := map_option (\<lambda>es. es @ made_entries ks) (keysList p)\<rparr>)"
proof (induction ks arbitrary: p)
  case Nil
  show ?case by (cases "keysList p") simp_all
next
  case (Cons k ks)
  show ?case
  proof (cases "make_li k")
    case (Inl e)
    then show ?thesis by (cases "keysList p") simp_all
  next
    case (Inr e)
    have "forEach_key (k # ks) p = forEach_key ks (appendChild e p)"
      using Inr by simp
    also have "\<dots> = (forEach_error ks,
        (appendChild e p)\<lparr>keysList := map_option (\<lambda>es. es @ made_entries ks)
                                          (keysList (appendChild e p))\<rparr>)"
      by (rule Cons.IH)
    also have "\<dots> = (forEach_error (k # ks),
        p\<lparr>keysList := map_option (\<lambda>es. es @ made_entries (k # ks)) (keysList p)\<rparr>)"
      using Inr by (cases "keysList p") (simp_all add: appendChild_def)
    finally show ?thesis .
  qed
qed

lemma make_li_JStr: "make_li (JStr k) = Inr \<lparr>li_text = k, li_onclick = Fill_and_get (JStr k)\<rparr>"
  by (simp add: make_li_def dom_string_def)

lemma made_entries_strings:
  "made_entries (map JStr ks) = map (\<lambda>k. \<lparr>li_text = k, li_onclick = Fill_and_get (JStr k)\<rparr>) ks"
  by (induction ks) (simp_all add: make_li_JStr)

lemma forEach_error_strings: "forEach_error (map JStr ks) = None"
  by (induction ks) (simp_all add: make_li_JStr)

text \<open>What \<open>loadKeys_finish\<close> adds to the log: the response and the body read, no request.\<close>

lemma trace_loadKeys_finish:
  "\<exists>evs. trace (snd (loadKeys_finish net p)) = trace p @ evs
         \<and> (\<forall>r. Sent r \<notin> set evs) \<and> (\<forall>c. Called c \<notin> set evs)
         \<and> (\<forall>r. BodyRead r \<in> set evs \<longrightarrow> r = get_request (lit ''/keys''))"
  by (auto simp: loadKeys_finish_def await_fetch_def read_json_def Let_def trace_log
        trace_showStatus forEach_key_eq
      split: fetch_result.split option.split sum.split jsvalue.split)

lemma trace_loadKeys:
  "\<exists>evs. trace (snd (loadKeys net p)) = trace p @ evs
         \<and> (\<forall>r. Sent r \<in> set evs \<longrightarrow> r = get_request (lit ''/keys''))
         \<and> (\<forall>c. Called c \<notin> set evs)
         \<and> (\<forall>r. BodyRead r \<in> set evs \<longrightarrow> r = get_request (lit ''/keys''))"
proof (cases "keysList p")
  case None
  then show ?thesis by (simp add: loadKeys_def loadKeys_start_def)
next
  case (Some es)
  let ?q = "send (get_request (lit ''/keys'')) (p\<lparr>keysList := Some []\<rparr>)"
  obtain evs where e: "trace (snd (loadKeys_finish net ?q)) = trace ?q @ evs"
      "\<forall>r. Sent r \<notin> set evs" "\<forall>c. Called c \<notin> set evs"
      "\<forall>r. BodyRead r \<in> set evs \<longrightarrow> r = get_request (lit ''/keys'')"
    using trace_loadKeys_finish by blast
  have "trace (snd (loadKeys net p)) = trace p @ (Sent (get_request (lit ''/keys'')) # evs)"
    using Some e(1) by (simp add: loadKeys_def loadKeys_start_def send_def trace_log)
  with e(2,3,4) show ?thesis by (intro exI[of _ "Sent (get_request (lit ''/keys'')) # evs"]) auto
qed

lemma fetch_Rejected:
  "net r = Rejected \<Longrightarrow> fetch net r p = (Inl NetworkError, log (Sent r) p)"
  by (simp add: fetch_def await_fetch_def send_def)

lemma fetch_Fulfilled:
  "net r = Fulfilled res \<Longrightarrow> fetch net r p = (Inr res, log (Received r res) (log (Sent r) p))"
  by (simp add: fetch_def await_fetch_def send_def)

lemma read_json_None:
  "body_json res = None \<Longrightarrow> read_json r res p = (Inl SyntaxError, log (BodyRead r) p)"
  by (simp add: read_json_def)

lemma read_json_Some:
  "body_json res = Some d \<Longrightarrow> read_json r res p = (Inr d, log (BodyRead r) p)"
  by (simp add: read_json_def)

text \<open>\<^verbatim>\<open>setKey\<close>, branch by branch.\<close>

lemma setKey_rejected:
  assumes "key_input p = Some k" "value_input p = Some v" "ttl_input p = Some t"
    and "net (set_request (trim k) (trim v) (ttl_of (trim t))) = Rejected"
  shows "setKey net p
           = (Some NetworkError, log (Sent (set_request (trim k) (trim v) (ttl_of (trim t)))) p)"
  using assms by (simp add: setKey_def fetch_Rejected Let_def)

lemma setKey_ok:
  assumes "key_input p = Some k" "value_input p = Some v" "ttl_input p = Some t"
    and "net (set_request (trim k) (trim v) (ttl_of (trim t))) = Fulfilled res" and "ok res"
  shows "setKey net p
           = (None, snd (loadKeys net (log (Called LoadKeys)
                (showStatus (ok_mark @ lit ''Key saved successfully'') True
                  (log (Received (set_request (trim k) (trim v) (ttl_of (trim t))) res)
                    (log (Sent (set_request (trim k) (trim v) (ttl_of (trim t)))) p))))))"
  using assms by (simp add: setKey_def fetch_Fulfilled Let_def)

lemma setKey_failed:
  assumes "key_input p = Some k" "value_input p = Some v" "ttl_input p = Some t"
    and "net (set_request (trim k) (trim v) (ttl_of (trim t))) = Fulfilled res" and "\<not> ok res"
  shows "setKey net p
           = (case read_json (set_request (trim k) (trim v) (ttl_of (trim t))) res
                  (log (Received (set_request (trim k) (trim v) (ttl_of (trim t))) res)
                    (log (Sent (set_request (trim k) (trim v) (ttl_of (trim t)))) p)) of
                (Inl e, p2) \<Rightarrow> (Some e, p2)
              | (Inr data, p2) \<Rightarrow>
                  (case get_prop data (lit ''detail'') of
                     Inl e \<Rightarrow> (Some e, p2)
                   | Inr d \<Rightarrow>
                       (case to_string (js_or d (JStr (lit ''Error''))) of
                          Inl e \<Rightarrow> (Some e, p2)
                        | Inr s \<Rightarrow> (None, showStatus (fail_mark @ s) False p2))))"
  using assms by (simp add: setKey_def fetch_Fulfilled Let_def)

lemma trace_setKey_failed:
  assumes "key_input p = Some k" "value_input p = Some v" "ttl_input p = Some t"
    and "net (set_request (trim k) (trim v) (ttl_of (trim t))) = Fulfilled res" and "\<not> ok res"
  shows "trace (snd (setKey net p))
           = trace p @ [Sent (set_request (trim k) (trim v) (ttl_of (trim t))),
                        Received (set_request (trim k) (trim v) (ttl_of (trim t))) res,
                        BodyRead (set_request (trim k) (trim v) (ttl_of (trim t)))]"
  by (simp add: setKey_failed [where net = net, OF assms] read_json_def trace_log trace_showStatus
        split: option.split sum.split)

lemma setKey_sends:
  assumes "key_input p = Some k" "value_input p = Some v" "ttl_input p = Some t"
  shows "\<exists>evs. trace (snd (setKey net p))
            = trace p @ Sent (set_request (trim k) (trim v) (ttl_of (trim t))) # evs
          \<and> (\<forall>r. Sent r \<in> set evs \<longrightarrow> r = get_request (lit ''/keys''))"
proof -
  let ?req = "set_request (trim k) (trim v) (ttl_of (trim t))"
  show ?thesis
  proof (cases "net ?req")
    case Rejected
    then show ?thesis
      by (simp add: setKey_rejected [where net = net, OF assms] trace_log)
  next
    case (Fulfilled res)
    show ?thesis
    proof (cases "ok res")
      case True
      let ?q = "log (Called LoadKeys) (showStatus (ok_mark @ lit ''Key saved successfully'') True
                  (log (Received ?req res) (log (Sent ?req) p)))"
      obtain evs where e: "trace (snd (loadKeys net ?q)) = trace ?q @ evs"
          "\<forall>r. Sent r \<in> set evs \<longrightarrow> r = get_request (lit ''/keys'')"
        using trace_loadKeys by blast
      have "trace (snd (setKey net p))
              = trace p @ Sent ?req # ([Received ?req res, Called LoadKeys] @ evs)"
        using e(1) by (simp add: setKey_ok [where net = net, OF assms Fulfilled True] trace_log trace_showStatus)
      with e(2) show ?thesis
        by (intro exI[of _ "[Received ?req res, Called LoadKeys] @ evs"]) auto
    next
      case False
      show ?thesis
        by (simp add: trace_setKey_failed [where net = net, OF assms Fulfilled False])
    qed
  qed
qed

text \<open>\<^verbatim>\<open>deleteKey\<close>, branch by branch.\<close>

lemma deleteKey_rejected:
  assumes "delKey_input p = Some raw" and "net (delete_request (trim raw)) = Rejected"
  shows "deleteKey net p = (Some NetworkError, log (Sent (delete_request (trim raw))) p)"
  using assms by (simp add: deleteKey_def fetch_Rejected Let_def)

lemma deleteKey_unparsable:
  assumes "delKey_input p = Some raw" and "net (delete_request (trim raw)) = Fulfilled res"
    and "body_json res = None"
  shows "deleteKey net p = (Some SyntaxError, answered_read (delete_request (trim raw)) res p)"
  using assms by (simp add: deleteKey_def fetch_Fulfilled read_json_None Let_def)

lemma deleteKey_ok:
  assumes "delKey_input p = Some raw" and "net (delete_request (trim raw)) = Fulfilled res"
    and "body_json res = Some data" and "ok res"
  shows "deleteKey net p
           = (None, snd (loadKeys net (log (Called LoadKeys)
                (showStatus (ok_mark @ lit ''Key deleted: '' @ trim raw) True
                  (answered_read (delete_request (trim raw)) res p)))))"
  using assms by (simp add: deleteKey_def fetch_Fulfilled read_json_Some Let_def)

lemma deleteKey_failed:
  assumes "delKey_input p = Some raw" and "net (delete_request (trim raw)) = Fulfilled res"
    and "body_json res = Some data" and "\<not> ok res"
  shows "deleteKey net p
           = (case get_prop data (lit ''detail'') of
                Inl e \<Rightarrow> (Some e, answered_read (delete_request (trim raw)) res p)
              | Inr d \<Rightarrow>
                  (case to_string (js_or d (JStr (lit ''Error''))) of
                     Inl e \<Rightarrow> (Some e, answered_read (delete_request (trim raw)) res p)
                   | Inr s \<Rightarrow>
                       (None, showStatus (fail_mark @ s) False
                                (answered_read (delete_request (trim raw)) res p))))"
  using assms by (simp add: deleteKey_def fetch_Fulfilled read_json_Some Let_def)

text \<open>\<^verbatim>\<open>getKey\<close>, branch by branch.\<close>

lemma getKey_rejected:
  assumes "getKey_input p = Some raw" and "net (get_request (lit ''/get/'' @ trim raw)) = Rejected"
  shows "getKey net p
           = (Some NetworkError, log (Sent (get_request (lit ''/get/'' @ trim raw))) p)"
  using assms by (simp add: getKey_def fetch_Rejected Let_def)

lemma getKey_unparsable:
  assumes "getKey_input p = Some raw"
    and "net (get_request (lit ''/get/'' @ trim raw)) = Fulfilled res"
    and "body_json res = None"
  shows "getKey net p
           = (Some SyntaxError, answered_read (get_request (lit ''/get/'' @ trim raw)) res p)"
  using assms by (simp add: getKey_def fetch_Fulfilled read_json_None Let_def)

lemma getKey_ok:
  assumes "getKey_input p = Some raw" and "getResult p = Some c"
    and "net (get_request (lit ''/get/'' @ trim raw)) = Fulfilled res"
    and "body_json res = Some data" and "ok res"
  shows "getKey net p
           = (None, showStatus (ok_mark @ lit ''Key fetched successfully'') True
                ((answered_read (get_request (lit ''/get/'' @ trim raw)) res p)
                   \<lparr>getResult := Some (Pretty data)\<rparr>))"
  using assms by (simp add: getKey_def fetch_Fulfilled read_json_Some Let_def log_def)

lemma getKey_failed:
  assumes "getKey_input p = Some raw" and "getResult p = Some c"
    and "net (get_request (lit ''/get/'' @ trim raw)) = Fulfilled res"
    and "body_json res = Some data" and "\<not> ok res"
  shows "getKey net p
           = (None, showStatus (fail_mark @ lit ''Key not found'') False
                ((answered_read (get_request (lit ''/get/'' @ trim raw)) res p)
                   \<lparr>getResult := Some (Text (lit ''Key not found''))\<rparr>))"
  using assms by (simp add: getKey_def fetch_Fulfilled read_json_Some Let_def log_def)

text \<open>\<^verbatim>\<open>clearAll\<close> and \<^verbatim>\<open>compactWAL\<close>, branch by branch.\<close>

lemma clearAll_rejected:
  assumes "net clear_request = Rejected"
  shows "clearAll net p = (Some NetworkError, log (Sent clear_request) p)"
  using assms by (simp add: clearAll_def fetch_Rejected Let_def)

lemma clearAll_unparsable:
  assumes "net clear_request = Fulfilled res" and "body_json res = None"
  shows "clearAll net p = (Some SyntaxError, answered_read clear_request res p)"
  using assms by (simp add: clearAll_def fetch_Fulfilled read_json_None Let_def)

lemma clearAll_failed:
  assumes "net clear_request = Fulfilled res" and "body_json res = Some data" and "\<not> ok res"
  shows "clearAll net p
           = (None, showStatus (fail_mark @ lit ''Error clearing store'') False
                (answered_read clear_request res p))"
  using assms by (simp add: clearAll_def fetch_Fulfilled read_json_Some Let_def)

lemma clearAll_ok_no_message:
  assumes "net clear_request = Fulfilled res" and "body_json res = Some data" and "ok res"
    and "get_prop data (lit ''message'') = Inl e"
  shows "clearAll net p = (Some e, answered_read clear_request res p)"
  using assms by (simp add: clearAll_def fetch_Fulfilled read_json_Some Let_def)

lemma clearAll_ok_unprintable:
  assumes "net clear_request = Fulfilled res" and "body_json res = Some data" and "ok res"
    and "get_prop data (lit ''message'') = Inr m" and "to_string m = Inl e"
  shows "clearAll net p = (Some e, answered_read clear_request res p)"
  using assms by (simp add: clearAll_def fetch_Fulfilled read_json_Some Let_def)

lemma compactWAL_rejected:
  assumes "net compact_request = Rejected"
  shows "compactWAL net p = (Some NetworkError, log (Sent compact_request) p)"
  using assms by (simp add: compactWAL_def fetch_Rejected Let_def)

lemma compactWAL_unparsable:
  assumes "net compact_request = Fulfilled res" and "body_json res = None"
  shows "compactWAL net p = (Some SyntaxError, answered_read compact_request res p)"
  using assms by (simp add: compactWAL_def fetch_Fulfilled read_json_None Let_def)

lemma compactWAL_no_message:
  assumes "net compact_request = Fulfilled res" and "body_json res = Some data"
    and "get_prop data (lit ''message'') = Inl e"
  shows "compactWAL net p = (Some e, answered_read compact_request res p)"
  using assms by (simp add: compactWAL_def fetch_Fulfilled read_json_Some Let_def)

lemma compactWAL_unprintable:
  assumes "net compact_request = Fulfilled res" and "body_json res = Some data"
    and "get_prop data (lit ''message'') = Inr m"
    and "to_string (js_or m (JStr (lit ''WAL compacted''))) = Inl e"
  shows "compactWAL net p = (Some e, answered_read compact_request res p)"
  using assms by (simp add: compactWAL_def fetch_Fulfilled read_json_Some Let_def)

lemma compactWAL_done:
  assumes "net compact_request = Fulfilled res" and "body_json res = Some data"
    and "get_prop data (lit ''message'') = Inr m"
    and "to_string (js_or m (JStr (lit ''WAL compacted''))) = Inr s"
  shows "compactWAL net p
           = (None, snd (loadStats net (log (Called LoadStats)
                (log (Alert s) (answered_read compact_request res p)))))"
  using assms by (simp add: compactWAL_def fetch_Fulfilled read_json_Some Let_def)

text \<open>Evaluation of the concrete inputs.\<close>

lemma trim_alpha: "trim (lit ''alpha'') = lit ''alpha''"
  by (simp add: trim_def lit_def is_ws_def)

lemma trim_one: "trim (lit ''1'') = lit ''1''"
  by (simp add: trim_def lit_def is_ws_def)

lemma trim_nil: "trim [] = []"
  by (simp add: trim_def)

lemma ttl_of_nil: "ttl_of [] = JNull"
  by (simp add: ttl_of_def)

lemma page_demo_fields:
  "statusBox page_demo = Some \<lparr>status_text = [], status_color = []\<rparr>"
  "key_input page_demo = Some (lit ''alpha'')"
  "value_input page_demo = Some (lit ''1'')"
  "ttl_input page_demo = Some []"
  "getKey_input page_demo = Some (lit ''alpha'')"
  "delKey_input page_demo = Some (lit ''alpha'')"
  "getResult page_demo = Some (Text [])"
  "keysList page_demo = Some []"
  "statsBox page_demo = Some (Text [])"
  "trace page_demo = []"
  by (simp_all add: page_demo_def)

lemma statusBox_log: "statusBox (log e p) = statusBox p"
  by (simp add: log_def)

lemma getResult_log: "getResult (log e p) = getResult p"
  by (simp add: log_def)

lemma lit_nonempty: "lit ''Key not found'' \<noteq> []"
  by (simp add: lit_def)

lemma set_request_demo:
  "set_request (trim (lit ''alpha'')) (trim (lit ''1'')) (ttl_of (trim []))
     = set_request (lit ''alpha'') (lit ''1'') JNull"
  by (simp add: trim_alpha trim_one trim_nil ttl_of_nil)

lemma set_request_not_keys: "set_request k v t \<noteq> get_request (lit ''/keys'')"
  by (simp add: set_request_def get_request_def lit_def)

lemma trace_deleteKey_read:
  assumes "delKey_input p = Some raw" and "net (delete_request (trim raw)) = Fulfilled res"
  shows "\<exists>evs. trace (snd (deleteKey net p))
           = trace p @ [Sent (delete_request (trim raw)), Received (delete_request (trim raw)) res,
                        BodyRead (delete_request (trim raw))] @ evs"
proof (cases "body_json res")
  case None
  show ?thesis
    by (simp add: deleteKey_unparsable [where net = net, OF assms None] trace_log)
next
  case (Some data)
  show ?thesis
  proof (cases "ok res")
    case True
    let ?q = "log (Called LoadKeys) (showStatus (ok_mark @ lit ''Key deleted: '' @ trim raw) True
                (answered_read (delete_request (trim raw)) res p))"
    obtain evs where "trace (snd (loadKeys net ?q)) = trace ?q @ evs"
      using trace_loadKeys by blast
    then show ?thesis
      by (simp add: deleteKey_ok [where net = net, OF assms Some True] trace_log trace_showStatus)
  next
    case False
    show ?thesis
      by (simp add: deleteKey_failed [where net = net, OF assms Some False] trace_log
            trace_showStatus split: sum.split)
  qed
qed

lemma trace_getKey_read:
  assumes "getKey_input p = Some raw"
    and "net (get_request (lit ''/get/'' @ trim raw)) = Fulfilled res"
  shows "trace (snd (getKey net p))
           = trace p @ [Sent (get_request (lit ''/get/'' @ trim raw)),
                        Received (get_request (lit ''/get/'' @ trim raw)) res,
                        BodyRead (get_request (lit ''/get/'' @ trim raw))]"
  using assms
  by (simp add: getKey_def fetch_Fulfilled read_json_def Let_def trace_log trace_showStatus
        split: option.split)

lemma trace_setKey_ok:
  assumes "key_input p = Some k" "value_input p = Some v" "ttl_input p = Some t"
    and "net (set_request (trim k) (trim v) (ttl_of (trim t))) = Fulfilled res" and "ok res"
  shows "\<exists>evs. trace (snd (setKey net p))
           = trace p @ [Sent (set_request (trim k) (trim v) (ttl_of (trim t))),
                        Received (set_request (trim k) (trim v) (ttl_of (trim t))) res,
                        Called LoadKeys] @ evs
         \<and> BodyRead (set_request (trim k) (trim v) (ttl_of (trim t))) \<notin> set evs
         \<and> Called LoadKeys \<notin> set evs"
proof -
  let ?req = "set_request (trim k) (trim v) (ttl_of (trim t))"
  let ?q = "log (Called LoadKeys) (showStatus (ok_mark @ lit ''Key saved successfully'') True
              (answered ?req res p))"
  obtain evs where e: "trace (snd (loadKeys net ?q)) = trace ?q @ evs"
      "\<forall>c. Called c \<notin> set evs"
      "\<forall>r. BodyRead r \<in> set evs \<longrightarrow> r = get_request (lit ''/keys'')"
    using trace_loadKeys by blast
  have "trace (snd (setKey net p)) = trace p @ [Sent ?req, Received ?req res, Called LoadKeys] @ evs"
    using e(1) by (simp add: setKey_ok [where net = net, OF assms] trace_log trace_showStatus)
  moreover have "BodyRead ?req \<notin> set evs"
    using e(3) set_request_not_keys by blast
  ultimately show ?thesis using e(2) by blast
qed

text \<open>
  The rest of \<^verbatim>\<open>loadKeys\<close> does not touch the result area, so clearing the result area
  before it resumes or after it has ended gives the same page.
\<close>

lemma loadKeys_finish_getResult:
  "loadKeys_finish net (p\<lparr>getResult := g\<rparr>)
     = (fst (loadKeys_finish net p), (snd (loadKeys_finish net p))\<lparr>getResult := g\<rparr>)"
  by (simp add: loadKeys_finish_def await_fetch_def read_json_def Let_def log_def showStatus_def
        forEach_key_eq split: fetch_result.split option.split sum.split jsvalue.split)

lemma clearAll_ok:
  assumes "net clear_request = Fulfilled res" and "body_json res = Some data" and "ok res"
    and "get_prop data (lit ''message'') = Inr m" and "to_string m = Inr s"
  shows "clearAll net p
           = (None, (snd (loadKeys net (log (Called LoadKeys)
                (showStatus (ok_mark @ s) True (answered_read clear_request res p)))))
                \<lparr>getResult := map_option (\<lambda>_. Text []) (getResult p)\<rparr>)"
proof -
  let ?q = "log (Called LoadKeys)
              (showStatus (ok_mark @ s) True (answered_read clear_request res p))"
  have g: "getResult ?q = getResult p"
    by (simp add: log_def showStatus_def split: option.split)
  have c: "clearAll net p
             = (case loadKeys_start ?q of
                  (pending, p3) \<Rightarrow>
                    let p4 = p3\<lparr>getResult := map_option (\<lambda>_. Text []) (getResult p3)\<rparr>
                    in (None, if pending then snd (loadKeys_finish net p4) else p4))"
    using assms by (simp add: clearAll_def fetch_Fulfilled read_json_Some Let_def)
  show ?thesis
  proof (cases "keysList ?q")
    case None
    then show ?thesis
      using g by (simp add: c loadKeys_def loadKeys_start_def)
  next
    case (Some es)
    then show ?thesis
      using g
      by (simp add: c loadKeys_def loadKeys_start_def loadKeys_finish_getResult send_def log_def)
  qed
qed

lemma trace_clearAll_ok:
  assumes "net clear_request = Fulfilled res" and "body_json res = Some data" and "ok res"
    and "get_prop data (lit ''message'') = Inr m" and "to_string m = Inr s"
  shows "\<exists>evs. trace (snd (clearAll net p))
           = trace p @ [Sent clear_request, Received clear_request res, BodyRead clear_request,
                        Called LoadKeys] @ evs
         \<and> Called LoadKeys \<notin> set evs"
proof -
  let ?q = "log (Called LoadKeys)
              (showStatus (ok_mark @ s) True (answered_read clear_request res p))"
  obtain evs where e: "trace (snd (loadKeys net ?q)) = trace ?q @ evs" "\<forall>c. Called c \<notin> set evs"
    using trace_loadKeys by blast
  have "trace (snd (clearAll net p))
          = trace p @ [Sent clear_request, Received clear_request res, BodyRead clear_request,
                       Called LoadKeys] @ evs"
    using e(1) by (simp add: clearAll_ok [where net = net, OF assms] trace_log trace_showStatus)
  with e(2) show ?thesis by blast
qed

lemma trace_deleteKey_ok:
  assumes "delKey_input p = Some raw" and "net (delete_request (trim raw)) = Fulfilled res"
    and "body_json res = Some data" and "ok res"
  shows "\<exists>evs. trace (snd (deleteKey net p))
           = trace p @ [Sent (delete_request (trim raw)), Received (delete_request (trim raw)) res,
                        BodyRead (delete_request (trim raw)), Called LoadKeys] @ evs
         \<and> Called LoadKeys \<notin> set evs"
proof -
  let ?q = "log (Called LoadKeys) (showStatus (ok_mark @ lit ''Key deleted: '' @ trim raw) True
              (answered_read (delete_request (trim raw)) res p))"
  obtain evs where e: "trace (snd (loadKeys net ?q)) = trace ?q @ evs" "\<forall>c. Called c \<notin> set evs"
    using trace_loadKeys by blast
  have "trace (snd (deleteKey net p))
          = trace p @ [Sent (delete_request (trim raw)), Received (delete_request (trim raw)) res,
                       BodyRead (delete_request (trim raw)), Called LoadKeys] @ evs"
    using e(1)
    by (simp add: deleteKey_ok [where net = net, OF assms] trace_log trace_showStatus)
  with e(2) show ?thesis by blast
qed

text \<open>The runs in which no refresh is called.\<close>

lemma setKey_no_call:
  assumes "key_input p = Some k" "value_input p = Some v" "ttl_input p = Some t"
    and "\<nexists>res. net (set_request (trim k) (trim v) (ttl_of (trim t))) = Fulfilled res \<and> ok res"
  shows "\<exists>evs. trace (snd (setKey net p)) = trace p @ evs \<and> Called LoadKeys \<notin> set evs"
proof (cases "net (set_request (trim k) (trim v) (ttl_of (trim t)))")
  case Rejected
  show ?thesis
    by (simp add: setKey_rejected [where net = net, OF assms(1-3) Rejected] trace_log)
next
  case (Fulfilled res)
  with assms(4) have "\<not> ok res" by simp
  then show ?thesis
    by (simp add: trace_setKey_failed [where net = net, OF assms(1-3) Fulfilled])
qed

lemma deleteKey_no_call:
  assumes "delKey_input p = Some raw"
    and "\<nexists>res data. net (delete_request (trim raw)) = Fulfilled res
           \<and> body_json res = Some data \<and> ok res"
  shows "\<exists>evs. trace (snd (deleteKey net p)) = trace p @ evs \<and> Called LoadKeys \<notin> set evs"
proof (cases "net (delete_request (trim raw))")
  case Rejected
  show ?thesis
    by (simp add: deleteKey_rejected [where net = net, OF assms(1) Rejected] trace_log)
next
  case (Fulfilled res)
  show ?thesis
  proof (cases "body_json res")
    case None
    show ?thesis
      by (simp add: deleteKey_unparsable [where net = net, OF assms(1) Fulfilled None] trace_log)
  next
    case (Some data)
    with assms(2) Fulfilled have "\<not> ok res" by simp
    then show ?thesis
      by (simp add: deleteKey_failed [where net = net, OF assms(1) Fulfilled Some] trace_log
            trace_showStatus split: sum.split)
  qed
qed

lemma clearAll_no_call:
  assumes "\<nexists>res data m s. net clear_request = Fulfilled res \<and> body_json res = Some data
             \<and> ok res \<and> get_prop data (lit ''message'') = Inr m \<and> to_string m = Inr s"
  shows "\<exists>evs. trace (snd (clearAll net p)) = trace p @ evs \<and> Called LoadKeys \<notin> set evs"
proof (cases "net clear_request")
  case Rejected
  show ?thesis
    by (simp add: clearAll_rejected [where net = net, OF Rejected] trace_log)
next
  case (Fulfilled res)
  show ?thesis
  proof (cases "body_json res")
    case None
    show ?thesis
      by (simp add: clearAll_unparsable [where net = net, OF Fulfilled None] trace_log)
  next
    case (Some data)
    show ?thesis
    proof (cases "ok res")
      case False
      show ?thesis
        by (simp add: clearAll_failed [where net = net, OF Fulfilled Some False] trace_log trace_showStatus)
    next
      case True
      show ?thesis
      proof (cases "get_prop data (lit ''message'')")
        case (Inl e)
        then show ?thesis
          by (simp add: clearAll_ok_no_message [where net = net, OF Fulfilled Some True] trace_log)
      next
        case (Inr m)
        with assms Fulfilled Some True obtain e where "to_string m = Inl e"
          by (cases "to_string m") auto
        then show ?thesis
          by (simp add: clearAll_ok_unprintable [where net = net, OF Fulfilled Some True Inr]
                trace_log)
      qed
    qed
  qed
qed

text \<open>\<^verbatim>\<open>loadStats\<close> leaves the status line alone and starts by sending its request.\<close>

lemma statusBox_loadStats: "statusBox (snd (loadStats net p)) = statusBox p"
  by (simp add: loadStats_def fetch_def await_fetch_def send_def read_json_def Let_def log_def
      split: fetch_result.split option.split)

lemma trace_loadStats:
  "\<exists>evs. trace (snd (loadStats net p)) = trace p @ Sent (get_request (lit ''/stats'')) # evs"
  by (simp add: loadStats_def fetch_def await_fetch_def send_def read_json_def Let_def log_def
      split: fetch_result.split option.split)

lemma statusBox_compactWAL: "statusBox (snd (compactWAL net p)) = statusBox p"
  by (simp add: compactWAL_def fetch_def await_fetch_def send_def read_json_def Let_def
        statusBox_loadStats statusBox_log
      split: fetch_result.split option.split sum.split)


text \<open>\<^verbatim>\<open>loadKeys\<close> on a page with a key list, answered by a body with keys and a count.\<close>

lemma loadKeys_done:
  assumes "keysList p = Some old" and "net (get_request (lit ''/keys'')) = Fulfilled res"
    and "body_json res = Some data" and "get_prop data (lit ''keys'') = Inr (JArr ks)"
    and "forEach_error ks = None"
    and "get_prop data (lit ''count'') = Inr c" and "to_string c = Inr s"
  shows "loadKeys net p
           = (None, showStatus (ok_mark @ lit ''Keys loaded ('' @ s @ lit '')'') True
                (p\<lparr>trace := trace p @ [Sent (get_request (lit ''/keys'')),
                                       Received (get_request (lit ''/keys'')) res,
                                       BodyRead (get_request (lit ''/keys''))],
                   keysList := Some (made_entries ks)\<rparr>))"
  using assms
  by (simp add: loadKeys_def loadKeys_start_def loadKeys_finish_def await_fetch_def send_def
        read_json_def Let_def log_def forEach_key_eq)

lemma keysList_showStatus: "keysList (showStatus m b p) = keysList p"
  by (simp add: showStatus_def split: option.split)


text \<open>Evaluation of the network that answers as the store does.\<close>

lemma net_demo_requests:
  "net_demo (get_request (lit ''/keys'')) = Fulfilled res_keys"
  "net_demo clear_request = Fulfilled res_cleared"
  "net_demo compact_request = Fulfilled res_compacted"
  "net_demo (get_request (lit ''/stats'')) = Fulfilled res_stats"
  "net_demo (set_request k v t) = Fulfilled res_saved"
  "net_demo (delete_request (lit ''alpha'')) = Fulfilled res_deleted"
  "net_demo (get_request (lit ''/get/alpha'')) = Fulfilled res_found"
  "net_demo (get_request (lit ''/get/b'')) = Fulfilled res_not_found"
  by (simp_all add: net_demo_def get_request_def clear_request_def compact_request_def
        set_request_def delete_request_def lit_def)

lemma page_shown_fields:
  "statusBox page_shown = Some \<lparr>status_text = [], status_color = []\<rparr>"
  "key_input page_shown = Some (lit ''alpha'')"
  "value_input page_shown = Some (lit ''1'')"
  "ttl_input page_shown = Some []"
  "getKey_input page_shown = Some (lit ''alpha'')"
  "delKey_input page_shown = Some (lit ''alpha'')"
  "getResult page_shown = Some (Text (lit ''old result''))"
  "keysList page_shown
     = Some [\<lparr>li_text = lit ''old'', li_onclick = Fill_and_get (JStr (lit ''old''))\<rparr>]"
  "statsBox page_shown = Some (Text [])"
  "trace page_shown = []"
  by (simp_all add: page_shown_def page_demo_def)

text \<open>The text of a count below \<open>2\<^sup>5\<^sup>3\<close> is its decimal digits.\<close>

lemma bits_le: "n < 2 ^ k \<Longrightarrow> bits n \<le> k"
proof (induction k arbitrary: n)
  case 0
  then show ?case by (simp add: bits.simps)
next
  case (Suc k)
  then have "n div 2 < 2 ^ k" by simp
  then have "bits (n div 2) \<le> k" by (rule Suc.IH)
  then show ?case by (subst bits.simps) simp
qed

lemma to_string_count:
  assumes "n < 2 ^ 53"
  shows "to_string (JNum (Num (int n))) = Inr (digits n)"
proof -
  have r: "round_double n = n"
    using bits_le [OF assms] by (simp add: round_double_def)
  have "(2::nat) ^ 53 < 2 ^ 1024" by simp
  with assms have "\<not> 2 ^ 1024 \<le> n" by linarith
  then have "to_double (int n) = Num (int n)"
    using r by (simp add: to_double_def)
  then show ?thesis
    using assms by (simp add: number_to_string_def print_double_def)
qed

lemma digits_small: "digits 1 = lit ''1''" "digits 2 = lit ''2''"
  by (simp_all add: digits.simps lit_def)

text \<open>\<^verbatim>\<open>loadStats\<close>, answered.\<close>

lemma loadStats_done:
  assumes "net (get_request (lit ''/stats'')) = Fulfilled res" and "body_json res = Some data"
    and "statsBox p = Some c"
  shows "loadStats net p
           = (None, (answered_read (get_request (lit ''/stats'')) res p)
                      \<lparr>statsBox := Some (Pretty data)\<rparr>)"
  using assms by (simp add: loadStats_def fetch_Fulfilled read_json_Some Let_def log_def)

lemma statsBox_log: "statsBox (log e p) = statsBox p"
  by (simp add: log_def)

lemma keysList_log: "keysList (log e p) = keysList p"
  by (simp add: log_def)

section \<open>The claims\<close>

text \<open>
  C1, as stated, fails in three places. \<^verbatim>\<open>deleteKey\<close> reads the body of a response that
  reports success; \<^verbatim>\<open>setKey\<close>, on a failure response whose body is not JSON, ends with
  the exception of \<^verbatim>\<open>res.json()\<close> and surfaces nothing (the status line stays empty);
  \<^verbatim>\<open>getKey\<close>, on a failure response with no detail, surfaces ``Key not found'', not
  ``Error''.
\<close>

theorem mutators_error_pattern_counterexample:
  "ok res_deleted
   \<and> BodyRead (delete_request (lit ''alpha''))
       \<in> set (trace (snd (deleteKey (reply res_deleted) page_demo)))
   \<and> fst (setKey (reply res_failed_text) page_demo) = Some SyntaxError
   \<and> statusBox (snd (setKey (reply res_failed_text) page_demo))
       = Some \<lparr>status_text = [], status_color = []\<rparr>
   \<and> statusBox (snd (getKey (reply res_no_detail) page_demo))
       = Some \<lparr>status_text = fail_mark @ lit ''Key not found'', status_color = lit ''red''\<rparr>"
proof -
  have a: "BodyRead (delete_request (lit ''alpha''))
             \<in> set (trace (snd (deleteKey (reply res_deleted) page_demo)))"
    using trace_deleteKey_read [of page_demo "lit ''alpha''" "reply res_deleted" res_deleted]
    by (auto simp: page_demo_fields reply_def trim_alpha)
  have b: "setKey (reply res_failed_text) page_demo
      = (Some SyntaxError,
           answered_read (set_request (lit ''alpha'') (lit ''1'') JNull) res_failed_text page_demo)"
    by (simp add: setKey_failed [where k = "lit ''alpha''" and v = "lit ''1''" and t = "[]"
            and res = res_failed_text] page_demo_fields reply_def set_request_demo
          read_json_def res_failed_text_def)
  have c: "getKey (reply res_no_detail) page_demo
      = (None, showStatus (fail_mark @ lit ''Key not found'') False
           ((answered_read (get_request (lit ''/get/'' @ lit ''alpha'')) res_no_detail page_demo)
              \<lparr>getResult := Some (Text (lit ''Key not found''))\<rparr>))"
    by (simp add: getKey_failed [where raw = "lit ''alpha''" and c = "Text []"
            and res = res_no_detail and data = "JObj []"] page_demo_fields reply_def trim_alpha
          res_no_detail_def)
  show ?thesis
    by (simp add: a b c showStatus_def statusBox_log page_demo_fields)
       (simp add: res_deleted_def)
qed

text \<open>
  C1, amended. On a page with the input fields of the three operations and the result
  area, where each of their requests is answered: \<^verbatim>\<open>setKey\<close> inspects \<^verbatim>\<open>res.ok\<close> first
  and reads the body only of a failure response; \<^verbatim>\<open>getKey\<close> and \<^verbatim>\<open>deleteKey\<close> read the
  body of every response, right after receiving it. For \<^verbatim>\<open>setKey\<close> and \<^verbatim>\<open>deleteKey\<close>, a
  failure response whose body is a JSON value other than \<^verbatim>\<open>null\<close> (so that reading its
  detail yields a value) with no detail, or a falsy one, surfaces the failure marker
  with ``Error''. A failure response whose body is not JSON, or is the JSON value
  \<^verbatim>\<open>null\<close>, surfaces nothing in \<^verbatim>\<open>setKey\<close> and \<^verbatim>\<open>deleteKey\<close>: the operation ends with
  an exception (of \<^verbatim>\<open>res.json()\<close>, or of reading the detail of \<^verbatim>\<open>null\<close>), the page
  unchanged but for the log; so does \<^verbatim>\<open>getKey\<close> on a body that is not JSON. \<^verbatim>\<open>getKey\<close>,
  on a failure response with a JSON body, reports ``Key not found''.
\<close>

theorem mutators_error_pattern:
  assumes "key_input p = Some k" and "value_input p = Some v" and "ttl_input p = Some t"
    and "getKey_input p = Some g" and "getResult p = Some c" and "delKey_input p = Some dk"
    and "net (set_request (trim k) (trim v) (ttl_of (trim t))) = Fulfilled rs"
    and "net (get_request (lit ''/get/'' @ trim g)) = Fulfilled rg"
    and "net (delete_request (trim dk)) = Fulfilled rd"
  shows "(ok rs \<longrightarrow>
            (\<exists>evs. trace (snd (setKey net p))
                = trace p @ [Sent (set_request (trim k) (trim v) (ttl_of (trim t))),
                             Received (set_request (trim k) (trim v) (ttl_of (trim t))) rs,
                             Called LoadKeys] @ evs
              \<and> BodyRead (set_request (trim k) (trim v) (ttl_of (trim t))) \<notin> set evs))
       \<and> (\<not> ok rs \<longrightarrow>
            trace (snd (setKey net p))
              = trace p @ [Sent (set_request (trim k) (trim v) (ttl_of (trim t))),
                           Received (set_request (trim k) (trim v) (ttl_of (trim t))) rs,
                           BodyRead (set_request (trim k) (trim v) (ttl_of (trim t)))])
       \<and> trace (snd (getKey net p))
            = trace p @ [Sent (get_request (lit ''/get/'' @ trim g)),
                         Received (get_request (lit ''/get/'' @ trim g)) rg,
                         BodyRead (get_request (lit ''/get/'' @ trim g))]
       \<and> (\<exists>evs. trace (snd (deleteKey net p))
              = trace p @ [Sent (delete_request (trim dk)), Received (delete_request (trim dk)) rd,
                           BodyRead (delete_request (trim dk))] @ evs)
       \<and> (\<forall>data d. \<not> ok rs \<and> body_json rs = Some data
              \<and> get_prop data (lit ''detail'') = Inr d \<and> \<not> truthy d \<longrightarrow>
            setKey net p
              = (None, showStatus (fail_mark @ lit ''Error'') False
                   (answered_read (set_request (trim k) (trim v) (ttl_of (trim t))) rs p)))
       \<and> (\<forall>data d. \<not> ok rd \<and> body_json rd = Some data
              \<and> get_prop data (lit ''detail'') = Inr d \<and> \<not> truthy d \<longrightarrow>
            deleteKey net p
              = (None, showStatus (fail_mark @ lit ''Error'') False
                   (answered_read (delete_request (trim dk)) rd p)))
       \<and> (\<not> ok rs \<and> body_json rs = None \<longrightarrow>
            setKey net p
              = (Some SyntaxError,
                   answered_read (set_request (trim k) (trim v) (ttl_of (trim t))) rs p))
       \<and> (body_json rd = None \<longrightarrow>
            deleteKey net p = (Some SyntaxError, answered_read (delete_request (trim dk)) rd p))
       \<and> (\<not> ok rs \<and> body_json rs = Some JNull \<longrightarrow>
            setKey net p
              = (Some TypeError,
                   answered_read (set_request (trim k) (trim v) (ttl_of (trim t))) rs p))
       \<and> (\<not> ok rd \<and> body_json rd = Some JNull \<longrightarrow>
            deleteKey net p = (Some TypeError, answered_read (delete_request (trim dk)) rd p))
       \<and> (body_json rg = None \<longrightarrow>
            getKey net p
              = (Some SyntaxError, answered_read (get_request (lit ''/get/'' @ trim g)) rg p))
       \<and> (\<forall>data. \<not> ok rg \<and> body_json rg = Some data \<longrightarrow>
            getKey net p
              = (None, showStatus (fail_mark @ lit ''Key not found'') False
                   ((answered_read (get_request (lit ''/get/'' @ trim g)) rg p)
                      \<lparr>getResult := Some (Text (lit ''Key not found''))\<rparr>)))"
proof -
  note s = assms(1-3,7)
  have 1: "ok rs \<longrightarrow>
            (\<exists>evs. trace (snd (setKey net p))
                = trace p @ [Sent (set_request (trim k) (trim v) (ttl_of (trim t))),
                             Received (set_request (trim k) (trim v) (ttl_of (trim t))) rs,
                             Called LoadKeys] @ evs
              \<and> BodyRead (set_request (trim k) (trim v) (ttl_of (trim t))) \<notin> set evs)"
    using trace_setKey_ok [where net = net, OF s] by blast
  have 2: "\<not> ok rs \<longrightarrow>
            trace (snd (setKey net p))
              = trace p @ [Sent (set_request (trim k) (trim v) (ttl_of (trim t))),
                           Received (set_request (trim k) (trim v) (ttl_of (trim t))) rs,
                           BodyRead (set_request (trim k) (trim v) (ttl_of (trim t)))]"
    using trace_setKey_failed [where net = net, OF s] by blast
  note 3 = trace_getKey_read [where net = net, OF assms(4,8)]
  note 4 = trace_deleteKey_read [where net = net, OF assms(6,9)]
  have 5: "\<forall>data d. \<not> ok rs \<and> body_json rs = Some data
              \<and> get_prop data (lit ''detail'') = Inr d \<and> \<not> truthy d \<longrightarrow>
            setKey net p
              = (None, showStatus (fail_mark @ lit ''Error'') False
                   (answered_read (set_request (trim k) (trim v) (ttl_of (trim t))) rs p))"
    by (simp add: setKey_failed [where net = net, OF s] read_json_def js_or_def)
  have 6: "\<forall>data d. \<not> ok rd \<and> body_json rd = Some data
              \<and> get_prop data (lit ''detail'') = Inr d \<and> \<not> truthy d \<longrightarrow>
            deleteKey net p
              = (None, showStatus (fail_mark @ lit ''Error'') False
                   (answered_read (delete_request (trim dk)) rd p))"
    by (simp add: deleteKey_failed [where net = net, OF assms(6,9)] js_or_def)
  have 7: "\<not> ok rs \<and> body_json rs = None \<longrightarrow>
            setKey net p
              = (Some SyntaxError,
                   answered_read (set_request (trim k) (trim v) (ttl_of (trim t))) rs p)"
    by (simp add: setKey_failed [where net = net, OF s] read_json_def)
  have 8: "body_json rd = None \<longrightarrow>
            deleteKey net p = (Some SyntaxError, answered_read (delete_request (trim dk)) rd p)"
    by (simp add: deleteKey_unparsable [where net = net, OF assms(6,9)])
  have 11: "\<not> ok rs \<and> body_json rs = Some JNull \<longrightarrow>
            setKey net p
              = (Some TypeError,
                   answered_read (set_request (trim k) (trim v) (ttl_of (trim t))) rs p)"
    by (simp add: setKey_failed [where net = net, OF s] read_json_def)
  have 12: "\<not> ok rd \<and> body_json rd = Some JNull \<longrightarrow>
            deleteKey net p = (Some TypeError, answered_read (delete_request (trim dk)) rd p)"
  proof (intro impI, elim conjE)
    assume "\<not> ok rd" "body_json rd = Some JNull"
    then show "deleteKey net p
        = (Some TypeError, answered_read (delete_request (trim dk)) rd p)"
      by (simp add: deleteKey_failed [where net = net, OF assms(6,9)])
  qed
  have 9: "body_json rg = None \<longrightarrow>
            getKey net p
              = (Some SyntaxError, answered_read (get_request (lit ''/get/'' @ trim g)) rg p)"
    by (simp add: getKey_unparsable [where net = net, OF assms(4,8)])
  have 10: "\<forall>data. \<not> ok rg \<and> body_json rg = Some data \<longrightarrow>
            getKey net p
              = (None, showStatus (fail_mark @ lit ''Key not found'') False
                   ((answered_read (get_request (lit ''/get/'' @ trim g)) rg p)
                      \<lparr>getResult := Some (Text (lit ''Key not found''))\<rparr>))"
    by (simp add: getKey_failed [where net = net, OF assms(4,5,8)])
  from 1 2 3 4 5 6 7 8 9 10 11 12 show ?thesis by blast
qed

theorem mutators_error_pattern_witness:
  "BodyRead (set_request (lit ''alpha'') (lit ''1'') JNull)
     \<notin> set (trace (snd (setKey net_demo page_demo)))
   \<and> Called LoadKeys \<in> set (trace (snd (setKey net_demo page_demo)))
   \<and> trace (snd (getKey net_demo page_demo))
     = [Sent (get_request (lit ''/get/alpha'')),
        Received (get_request (lit ''/get/alpha'')) res_found,
        BodyRead (get_request (lit ''/get/alpha''))]
   \<and> setKey (reply res_no_detail) page_demo
     = (None, showStatus (fail_mark @ lit ''Error'') False
          (answered_read (set_request (lit ''alpha'') (lit ''1'') JNull) res_no_detail page_demo))
   \<and> deleteKey (reply res_no_detail) page_demo
     = (None, showStatus (fail_mark @ lit ''Error'') False
          (answered_read (delete_request (lit ''alpha'')) res_no_detail page_demo))
   \<and> getKey (reply res_no_detail) page_demo
     = (None, showStatus (fail_mark @ lit ''Key not found'') False
          ((answered_read (get_request (lit ''/get/alpha'')) res_no_detail page_demo)
             \<lparr>getResult := Some (Text (lit ''Key not found''))\<rparr>))
   \<and> setKey (reply res_null_failed) page_demo
     = (Some TypeError,
          answered_read (set_request (lit ''alpha'') (lit ''1'') JNull) res_null_failed page_demo)
   \<and> deleteKey (reply res_failed_text) page_demo
     = (Some SyntaxError,
          answered_read (delete_request (lit ''alpha'')) res_failed_text page_demo)"
proof -
  have u: "lit ''/get/'' @ lit ''alpha'' = lit ''/get/alpha''"
    by (simp add: lit_def)
  have r: "\<not> ok res_no_detail" "body_json res_no_detail = Some (JObj [])"
    "\<not> ok res_null_failed" "body_json res_null_failed = Some JNull"
    "\<not> ok res_failed_text" "body_json res_failed_text = None"
    "ok res_saved"
    by (simp_all add: res_no_detail_def res_null_failed_def res_failed_text_def res_saved_def)
  have a: "BodyRead (set_request (lit ''alpha'') (lit ''1'') JNull)
             \<notin> set (trace (snd (setKey net_demo page_demo)))
           \<and> Called LoadKeys \<in> set (trace (snd (setKey net_demo page_demo)))
           \<and> trace (snd (getKey net_demo page_demo))
             = [Sent (get_request (lit ''/get/alpha'')),
                Received (get_request (lit ''/get/alpha'')) res_found,
                BodyRead (get_request (lit ''/get/alpha''))]"
    using mutators_error_pattern [of page_demo "lit ''alpha''" "lit ''1''" "[]" "lit ''alpha''"
        "Text []" "lit ''alpha''" net_demo res_saved res_found res_deleted] r(7)
    by (auto simp: page_demo_fields net_demo_requests trim_alpha trim_one trim_nil ttl_of_nil u)
  have b: "setKey (reply res_no_detail) page_demo
     = (None, showStatus (fail_mark @ lit ''Error'') False
          (answered_read (set_request (lit ''alpha'') (lit ''1'') JNull) res_no_detail page_demo))
   \<and> deleteKey (reply res_no_detail) page_demo
     = (None, showStatus (fail_mark @ lit ''Error'') False
          (answered_read (delete_request (lit ''alpha'')) res_no_detail page_demo))
   \<and> getKey (reply res_no_detail) page_demo
     = (None, showStatus (fail_mark @ lit ''Key not found'') False
          ((answered_read (get_request (lit ''/get/alpha'')) res_no_detail page_demo)
             \<lparr>getResult := Some (Text (lit ''Key not found''))\<rparr>))"
    using mutators_error_pattern [of page_demo "lit ''alpha''" "lit ''1''" "[]" "lit ''alpha''"
        "Text []" "lit ''alpha''" "reply res_no_detail" res_no_detail res_no_detail
        res_no_detail] r(1,2)
    by (simp add: page_demo_fields reply_def trim_alpha trim_one trim_nil ttl_of_nil u)
  have c: "setKey (reply res_null_failed) page_demo
     = (Some TypeError,
          answered_read (set_request (lit ''alpha'') (lit ''1'') JNull) res_null_failed page_demo)"
    using mutators_error_pattern [of page_demo "lit ''alpha''" "lit ''1''" "[]" "lit ''alpha''"
        "Text []" "lit ''alpha''" "reply res_null_failed" res_null_failed res_null_failed
        res_null_failed] r(3,4)
    by (simp add: page_demo_fields reply_def trim_alpha trim_one trim_nil ttl_of_nil u)
  have d: "deleteKey (reply res_failed_text) page_demo
     = (Some SyntaxError,
          answered_read (delete_request (lit ''alpha'')) res_failed_text page_demo)"
    using mutators_error_pattern [of page_demo "lit ''alpha''" "lit ''1''" "[]" "lit ''alpha''"
        "Text []" "lit ''alpha''" "reply res_failed_text" res_failed_text res_failed_text
        res_failed_text] r(5,6)
    by (simp add: page_demo_fields reply_def trim_alpha trim_one trim_nil ttl_of_nil u)
  from a b c d show ?thesis by blast
qed

text \<open>
  C2, as stated, fails: when the request of \<^verbatim>\<open>getKey\<close> fails in the network, \<^verbatim>\<open>fetch\<close>
  rejects, \<^verbatim>\<open>getKey\<close> ends with that exception, and the result area and the status
  line stay as they were (here: empty); no ``Key not found'' appears.
\<close>

theorem getKey_network_failure_counterexample:
  "fst (getKey net_down page_demo) = Some NetworkError
   \<and> getResult (snd (getKey net_down page_demo)) = Some (Text [])
   \<and> statusBox (snd (getKey net_down page_demo)) = Some \<lparr>status_text = [], status_color = []\<rparr>"
  by (simp add: getKey_rejected [where raw = "lit ''alpha''"] page_demo_fields net_down_def
        statusBox_log getResult_log)

text \<open>
  C2, amended. When the lookup field and the result area exist and the request of
  \<^verbatim>\<open>getKey\<close> is answered by a failure response whose body is JSON, then whatever
  the body is, \<^verbatim>\<open>getKey\<close> writes ``Key not found'' into the result area and reports
  the failure status ``Key not found''. When the request fails in the network, or the
  body of the response is not JSON, \<^verbatim>\<open>getKey\<close> ends with an exception and changes
  nothing but the log.
\<close>

theorem getKey_failure_response:
  assumes "getKey_input p = Some raw" and "getResult p = Some c"
  shows "(\<forall>res data. net (get_request (lit ''/get/'' @ trim raw)) = Fulfilled res
            \<and> \<not> ok res \<and> body_json res = Some data \<longrightarrow>
            getKey net p
              = (None, showStatus (fail_mark @ lit ''Key not found'') False
                   ((answered_read (get_request (lit ''/get/'' @ trim raw)) res p)
                      \<lparr>getResult := Some (Text (lit ''Key not found''))\<rparr>)))
       \<and> (net (get_request (lit ''/get/'' @ trim raw)) = Rejected \<longrightarrow>
            getKey net p
              = (Some NetworkError, log (Sent (get_request (lit ''/get/'' @ trim raw))) p))
       \<and> (\<forall>res. net (get_request (lit ''/get/'' @ trim raw)) = Fulfilled res
            \<and> body_json res = None \<longrightarrow>
            getKey net p
              = (Some SyntaxError, answered_read (get_request (lit ''/get/'' @ trim raw)) res p))"
  using assms
  by (simp add: getKey_failed [where net = net] getKey_rejected [where net = net]
        getKey_unparsable [where net = net])

theorem getKey_failure_response_witness:
  "getKey (reply res_not_found) page_demo
     = (None, page_demo
          \<lparr>statusBox := Some \<lparr>status_text = fail_mark @ lit ''Key not found'',
                                status_color = lit ''red''\<rparr>,
           getResult := Some (Text (lit ''Key not found'')),
           trace := [Sent (get_request (lit ''/get/alpha'')),
                     Received (get_request (lit ''/get/alpha'')) res_not_found,
                     BodyRead (get_request (lit ''/get/alpha''))]\<rparr>)"
proof -
  have u: "lit ''/get/'' @ lit ''alpha'' = lit ''/get/alpha''"
    by (simp add: lit_def)
  have r: "\<not> ok res_not_found"
    "body_json res_not_found = Some (JObj [(lit ''detail'', JStr (lit ''Key not found''))])"
    by (simp_all add: res_not_found_def)
  show ?thesis
    using getKey_failure_response [of page_demo "lit ''alpha''" "Text []" "reply res_not_found"] r
    by (simp add: page_demo_fields trim_alpha u reply_def)
       (simp add: page_demo_def showStatus_def log_def)
qed

text \<open>
  C3, as stated, fails. \<^verbatim>\<open>deleteKey\<close> receives a response whose success indicator is
  set, but whose body is not JSON (an empty body, say), and calls no refresh: the
  chain ends with the exception of \<^verbatim>\<open>res.json()\<close>. \<^verbatim>\<open>clearAll\<close> receives a response
  whose success indicator is set and whose body is the JSON value \<^verbatim>\<open>null\<close>; it takes
  the success branch, where reading \<^verbatim>\<open>data.message\<close> raises, and calls no refresh.
\<close>

theorem refresh_on_success_counterexample:
  "ok res_ok_text
   \<and> trace (snd (deleteKey (reply res_ok_text) page_demo))
       = [Sent (delete_request (lit ''alpha'')),
          Received (delete_request (lit ''alpha'')) res_ok_text,
          BodyRead (delete_request (lit ''alpha''))]
   \<and> Called LoadKeys \<notin> set (trace (snd (deleteKey (reply res_ok_text) page_demo)))
   \<and> ok res_ok_null
   \<and> clearAll (reply res_ok_null) page_demo
       = (Some TypeError, answered_read clear_request res_ok_null page_demo)
   \<and> Called LoadKeys \<notin> set (trace (snd (clearAll (reply res_ok_null) page_demo)))"
proof -
  have d: "deleteKey (reply res_ok_text) page_demo
          = (Some SyntaxError, answered_read (delete_request (lit ''alpha'')) res_ok_text page_demo)"
    by (simp add: deleteKey_unparsable [where raw = "lit ''alpha''" and res = res_ok_text]
          page_demo_fields reply_def trim_alpha res_ok_text_def)
  have c: "clearAll (reply res_ok_null) page_demo
          = (Some TypeError, answered_read clear_request res_ok_null page_demo)"
    by (simp add: clearAll_ok_no_message [where res = res_ok_null and data = JNull]
          reply_def res_ok_null_def)
  have o: "ok res_ok_text" "ok res_ok_null"
    by (simp_all add: res_ok_text_def res_ok_null_def)
  show ?thesis
    by (simp add: d c o trace_log page_demo_fields)
qed

text \<open>
  C3, amended. On a page with the input fields of \<^verbatim>\<open>setKey\<close> and \<^verbatim>\<open>deleteKey\<close>, the
  refresh of the key list is called in these runs and in no other: by \<^verbatim>\<open>setKey\<close>, when a
  response has been received and its success indicator is set; by \<^verbatim>\<open>deleteKey\<close>, when a
  response has been received, its body has been read as JSON and its success indicator
  is set; by \<^verbatim>\<open>clearAll\<close>, when a response has been received, its body has been read as
  a JSON value other than \<^verbatim>\<open>null\<close>, its success indicator is set and the message of
  the body converts to a string (every value does, but an object with a property
  \<^verbatim>\<open>toString\<close> of its own, or an array that holds one). In these runs the call comes
  once, after the receipt of the response (and the reading of its body); it never
  comes before the response, nor on a response that reports failure.
\<close>

theorem refresh_on_success:
  assumes "key_input p = Some k" and "value_input p = Some v" and "ttl_input p = Some t"
    and "delKey_input p = Some dk"
  shows "(\<forall>res. net (set_request (trim k) (trim v) (ttl_of (trim t))) = Fulfilled res \<and> ok res \<longrightarrow>
            (\<exists>evs. trace (snd (setKey net p))
                = trace p @ [Sent (set_request (trim k) (trim v) (ttl_of (trim t))),
                             Received (set_request (trim k) (trim v) (ttl_of (trim t))) res,
                             Called LoadKeys] @ evs
              \<and> Called LoadKeys \<notin> set evs))
       \<and> ((\<nexists>res. net (set_request (trim k) (trim v) (ttl_of (trim t))) = Fulfilled res \<and> ok res) \<longrightarrow>
            (\<exists>evs. trace (snd (setKey net p)) = trace p @ evs \<and> Called LoadKeys \<notin> set evs))
       \<and> (\<forall>res data. net (delete_request (trim dk)) = Fulfilled res
              \<and> body_json res = Some data \<and> ok res \<longrightarrow>
            (\<exists>evs. trace (snd (deleteKey net p))
                = trace p @ [Sent (delete_request (trim dk)),
                             Received (delete_request (trim dk)) res,
                             BodyRead (delete_request (trim dk)), Called LoadKeys] @ evs
              \<and> Called LoadKeys \<notin> set evs))
       \<and> ((\<nexists>res data. net (delete_request (trim dk)) = Fulfilled res
              \<and> body_json res = Some data \<and> ok res) \<longrightarrow>
            (\<exists>evs. trace (snd (deleteKey net p)) = trace p @ evs \<and> Called LoadKeys \<notin> set evs))
       \<and> (\<forall>res data m s. net clear_request = Fulfilled res \<and> body_json res = Some data
              \<and> ok res \<and> get_prop data (lit ''message'') = Inr m \<and> to_string m = Inr s \<longrightarrow>
            (\<exists>evs. trace (snd (clearAll net p))
                = trace p @ [Sent clear_request, Received clear_request res,
                             BodyRead clear_request, Called LoadKeys] @ evs
              \<and> Called LoadKeys \<notin> set evs))
       \<and> ((\<nexists>res data m s. net clear_request = Fulfilled res \<and> body_json res = Some data
              \<and> ok res \<and> get_prop data (lit ''message'') = Inr m \<and> to_string m = Inr s) \<longrightarrow>
            (\<exists>evs. trace (snd (clearAll net p)) = trace p @ evs \<and> Called LoadKeys \<notin> set evs))"
proof -
  have 1: "\<forall>res. net (set_request (trim k) (trim v) (ttl_of (trim t))) = Fulfilled res \<and> ok res \<longrightarrow>
            (\<exists>evs. trace (snd (setKey net p))
                = trace p @ [Sent (set_request (trim k) (trim v) (ttl_of (trim t))),
                             Received (set_request (trim k) (trim v) (ttl_of (trim t))) res,
                             Called LoadKeys] @ evs
              \<and> Called LoadKeys \<notin> set evs)"
    using trace_setKey_ok [where net = net, OF assms(1-3)] by blast
  have 2: "(\<nexists>res. net (set_request (trim k) (trim v) (ttl_of (trim t))) = Fulfilled res \<and> ok res) \<longrightarrow>
            (\<exists>evs. trace (snd (setKey net p)) = trace p @ evs \<and> Called LoadKeys \<notin> set evs)"
    using setKey_no_call [where net = net, OF assms(1-3)] by blast
  have 3: "\<forall>res data. net (delete_request (trim dk)) = Fulfilled res
              \<and> body_json res = Some data \<and> ok res \<longrightarrow>
            (\<exists>evs. trace (snd (deleteKey net p))
                = trace p @ [Sent (delete_request (trim dk)),
                             Received (delete_request (trim dk)) res,
                             BodyRead (delete_request (trim dk)), Called LoadKeys] @ evs
              \<and> Called LoadKeys \<notin> set evs)"
    using trace_deleteKey_ok [where net = net, OF assms(4)] by blast
  have 4: "(\<nexists>res data. net (delete_request (trim dk)) = Fulfilled res
              \<and> body_json res = Some data \<and> ok res) \<longrightarrow>
            (\<exists>evs. trace (snd (deleteKey net p)) = trace p @ evs \<and> Called LoadKeys \<notin> set evs)"
    using deleteKey_no_call [where net = net, OF assms(4)] by blast
  have 5: "\<forall>res data m s. net clear_request = Fulfilled res \<and> body_json res = Some data
              \<and> ok res \<and> get_prop data (lit ''message'') = Inr m \<and> to_string m = Inr s \<longrightarrow>
            (\<exists>evs. trace (snd (clearAll net p))
                = trace p @ [Sent clear_request, Received clear_request res,
                             BodyRead clear_request, Called LoadKeys] @ evs
              \<and> Called LoadKeys \<notin> set evs)"
    using trace_clearAll_ok [where net = net] by blast
  have 6: "(\<nexists>res data m s. net clear_request = Fulfilled res \<and> body_json res = Some data
              \<and> ok res \<and> get_prop data (lit ''message'') = Inr m \<and> to_string m = Inr s) \<longrightarrow>
            (\<exists>evs. trace (snd (clearAll net p)) = trace p @ evs \<and> Called LoadKeys \<notin> set evs)"
    using clearAll_no_call [where net = net] by blast
  from 1 2 3 4 5 6 show ?thesis by blast
qed

theorem refresh_on_success_witness:
  "Called LoadKeys \<in> set (trace (snd (setKey net_demo page_demo)))
   \<and> Called LoadKeys \<in> set (trace (snd (deleteKey net_demo page_demo)))
   \<and> Called LoadKeys \<in> set (trace (snd (clearAll net_demo page_demo)))
   \<and> Called LoadKeys \<notin> set (trace (snd (setKey (reply res_not_found) page_demo)))
   \<and> Called LoadKeys \<notin> set (trace (snd (deleteKey (reply res_not_found) page_demo)))
   \<and> Called LoadKeys \<notin> set (trace (snd (clearAll (reply res_not_found) page_demo)))
   \<and> Called LoadKeys \<notin> set (trace (snd (clearAll (reply res_message_object) page_demo)))"
proof -
  have r: "ok res_saved" "ok res_deleted" "ok res_cleared"
    "body_json res_deleted = Some (JObj [(lit ''message'', JStr (lit ''deleted''))])"
    "body_json res_cleared = Some (JObj [(lit ''message'', JStr (lit ''All keys cleared''))])"
    "get_prop (JObj [(lit ''message'', JStr (lit ''All keys cleared''))]) (lit ''message'')
       = Inr (JStr (lit ''All keys cleared''))"
    "to_string (JStr (lit ''All keys cleared'')) = Inr (lit ''All keys cleared'')"
    by (simp_all add: res_saved_def res_deleted_def res_cleared_def)
  have a: "Called LoadKeys \<in> set (trace (snd (setKey net_demo page_demo)))
   \<and> Called LoadKeys \<in> set (trace (snd (deleteKey net_demo page_demo)))
   \<and> Called LoadKeys \<in> set (trace (snd (clearAll net_demo page_demo)))"
    using refresh_on_success [of page_demo "lit ''alpha''" "lit ''1''" "[]" "lit ''alpha''"
        net_demo] r
    by (auto simp: page_demo_fields net_demo_requests trim_alpha)
  have n: "\<not> ok res_not_found"
    by (simp add: res_not_found_def)
  have b: "Called LoadKeys \<notin> set (trace (snd (setKey (reply res_not_found) page_demo)))
   \<and> Called LoadKeys \<notin> set (trace (snd (deleteKey (reply res_not_found) page_demo)))
   \<and> Called LoadKeys \<notin> set (trace (snd (clearAll (reply res_not_found) page_demo)))"
    using refresh_on_success [of page_demo "lit ''alpha''" "lit ''1''" "[]" "lit ''alpha''"
        "reply res_not_found"] n
    by (auto simp: page_demo_fields reply_def)
  have m: "\<nexists>res data m s. reply res_message_object clear_request = Fulfilled res
      \<and> body_json res = Some data \<and> ok res \<and> get_prop data (lit ''message'') = Inr m
      \<and> to_string m = Inr s"
    by (auto simp: reply_def res_message_object_def)
  have c: "Called LoadKeys \<notin> set (trace (snd (clearAll (reply res_message_object) page_demo)))"
    using refresh_on_success [of page_demo "lit ''alpha''" "lit ''1''" "[]" "lit ''alpha''"
        "reply res_message_object"] m
    by (auto simp: page_demo_fields)
  from a b c show ?thesis by blast
qed

text \<open>
  C4. When the three input fields of \<^verbatim>\<open>setKey\<close> exist and the trimmed TTL field is
  empty, the first thing \<^verbatim>\<open>setKey\<close> does is to send the POST request to \<^verbatim>\<open>/set\<close>
  whose body has the trimmed key, the trimmed value and \<^verbatim>\<open>ttl\<close> equal to \<^verbatim>\<open>null\<close>
  (not the number 0); every other request of the chain is the GET of \<^verbatim>\<open>/keys\<close>.
\<close>

theorem setKey_empty_ttl_null:
  assumes "key_input p = Some k" and "value_input p = Some v" and "ttl_input p = Some t"
    and "trim t = []"
  shows "\<exists>evs. trace (snd (setKey net p))
            = trace p @ Sent \<lparr>req_method = lit ''POST'', req_url = lit ''/set'',
                req_headers = [(lit ''Content-Type'', lit ''application/json'')],
                req_body = Some (JObj [(lit ''key'', JStr (trim k)),
                  (lit ''value'', JStr (trim v)), (lit ''ttl'', JNull)])\<rparr> # evs
          \<and> (\<forall>r. Sent r \<in> set evs \<longrightarrow> r = get_request (lit ''/keys''))"
  using setKey_sends [OF assms(1-3), of net] assms(4) by (simp add: set_request_def ttl_of_def)

theorem setKey_empty_ttl_null_witness:
  "trim (lit ''  '') = []
   \<and> hd (trace (snd (setKey net_down (page_demo\<lparr>ttl_input := Some (lit ''  '')\<rparr>))))
       = Sent \<lparr>req_method = lit ''POST'', req_url = lit ''/set'',
                req_headers = [(lit ''Content-Type'', lit ''application/json'')],
                req_body = Some (JObj [(lit ''key'', JStr (lit ''alpha'')),
                  (lit ''value'', JStr (lit ''1'')), (lit ''ttl'', JNull)])\<rparr>"
proof -
  have t: "trim (lit ''  '') = []"
    by (simp add: trim_def lit_def is_ws_def)
  have k: "trim (lit ''alpha'') = lit ''alpha''" "trim (lit ''1'') = lit ''1''"
    by (simp_all add: trim_def lit_def is_ws_def)
  show ?thesis
    using setKey_empty_ttl_null [of "page_demo\<lparr>ttl_input := Some (lit ''  '')\<rparr>"
        "lit ''alpha''" "lit ''1''" "lit ''  ''" net_down] t k
    by (auto simp: page_demo_def)
qed

text \<open>
  C5, as stated, fails in two places. A failure response whose body carries the empty
  string as its detail is reported as ``Error'', not as the detail; and a failure
  response whose body is not JSON carries no detail string, yet \<^verbatim>\<open>setKey\<close> reports
  nothing: it ends with the exception of \<^verbatim>\<open>res.json()\<close> and the status line stays empty.
\<close>

theorem failure_detail_counterexample:
  "statusBox (snd (setKey (reply res_empty_detail) page_demo))
     = Some \<lparr>status_text = fail_mark @ lit ''Error'', status_color = lit ''red''\<rparr>
   \<and> fst (setKey (reply res_failed_text) page_demo) = Some SyntaxError
   \<and> statusBox (snd (setKey (reply res_failed_text) page_demo))
     = Some \<lparr>status_text = [], status_color = []\<rparr>"
proof -
  have a: "setKey (reply res_empty_detail) page_demo
      = (None, showStatus (fail_mark @ lit ''Error'') False
           (answered_read (set_request (lit ''alpha'') (lit ''1'') JNull) res_empty_detail page_demo))"
    by (simp add: setKey_failed [where k = "lit ''alpha''" and v = "lit ''1''" and t = "[]"
            and res = res_empty_detail] page_demo_fields reply_def set_request_demo
          read_json_def res_empty_detail_def js_or_def)
  have b: "setKey (reply res_failed_text) page_demo
      = (Some SyntaxError,
           answered_read (set_request (lit ''alpha'') (lit ''1'') JNull) res_failed_text page_demo)"
    by (simp add: setKey_failed [where k = "lit ''alpha''" and v = "lit ''1''" and t = "[]"
            and res = res_failed_text] page_demo_fields reply_def set_request_demo
          read_json_def res_failed_text_def)
  show ?thesis
    by (simp add: a b showStatus_def statusBox_log page_demo_fields)
qed

text \<open>
  C5, amended. For a failure response to \<^verbatim>\<open>setKey\<close> or \<^verbatim>\<open>deleteKey\<close> whose body is a
  JSON object: when the object carries a non-empty detail string, the reported
  status message is the failure marker followed by that string; when it carries no
  detail, or the empty string as detail, the message is the failure marker followed
  by ``Error''. In both cases the status is reported as a failure, and nothing else
  but the log changes.
\<close>

theorem failure_detail_message:
  assumes "\<not> ok res" and "body_json res = Some (JObj kvs)"
    and "map_of kvs (lit ''detail'') = Some (JStr s) \<and> s \<noteq> [] \<and> msg = s
         \<or> (map_of kvs (lit ''detail'') = None \<or> map_of kvs (lit ''detail'') = Some (JStr []))
            \<and> msg = lit ''Error''"
  shows "(key_input p = Some k \<and> value_input p = Some v \<and> ttl_input p = Some t
          \<and> net (set_request (trim k) (trim v) (ttl_of (trim t))) = Fulfilled res \<longrightarrow>
            setKey net p
              = (None, showStatus (fail_mark @ msg) False
                   (answered_read (set_request (trim k) (trim v) (ttl_of (trim t))) res p)))
       \<and> (delKey_input p = Some raw \<and> net (delete_request (trim raw)) = Fulfilled res \<longrightarrow>
            deleteKey net p
              = (None, showStatus (fail_mark @ msg) False
                   (answered_read (delete_request (trim raw)) res p)))"
proof -
  have d: "to_string (js_or (case map_of kvs (lit ''detail'') of None \<Rightarrow> JUndefined | Some x \<Rightarrow> x)
              (JStr (lit ''Error''))) = Inr msg"
    using assms(3) by (auto simp: js_or_def)
  have g: "get_prop (JObj kvs) (lit ''detail'')
             = Inr (case map_of kvs (lit ''detail'') of None \<Rightarrow> JUndefined | Some x \<Rightarrow> x)"
    by (simp split: option.split)
  show ?thesis
    using assms(1,2) d
    by (simp add: setKey_failed [where net = net] deleteKey_failed [where net = net]
          read_json_Some g del: get_prop.simps)
qed

theorem failure_detail_message_witness:
  "setKey (reply res_not_found) page_demo
     = (None, showStatus (fail_mark @ lit ''Key not found'') False
          (answered_read (set_request (lit ''alpha'') (lit ''1'') JNull) res_not_found page_demo))
   \<and> deleteKey (reply res_no_detail) page_demo
     = (None, showStatus (fail_mark @ lit ''Error'') False
          (answered_read (delete_request (lit ''alpha'')) res_no_detail page_demo))"
proof -
  have 1: "\<not> ok res_not_found"
    "body_json res_not_found = Some (JObj [(lit ''detail'', JStr (lit ''Key not found''))])"
    "map_of [(lit ''detail'', JStr (lit ''Key not found''))] (lit ''detail'')
       = Some (JStr (lit ''Key not found''))"
    by (simp_all add: res_not_found_def)
  have 2: "\<not> ok res_no_detail" "body_json res_no_detail = Some (JObj [])"
    by (simp_all add: res_no_detail_def)
  show ?thesis
    using failure_detail_message [of res_not_found "[(lit ''detail'', JStr (lit ''Key not found''))]"
        "lit ''Key not found''" "lit ''Key not found''" page_demo "lit ''alpha''" "lit ''1''" "[]"
        "reply res_not_found" "lit ''alpha''"]
      failure_detail_message [of res_no_detail "[]" "[]" "lit ''Error''" page_demo
        "lit ''alpha''" "lit ''1''" "[]" "reply res_no_detail" "lit ''alpha''"]
      1 2 lit_nonempty
    by (simp add: page_demo_fields reply_def trim_alpha trim_one trim_nil ttl_of_nil)
qed

text \<open>
  C6, as stated, fails: on a failure response whose body is not JSON, \<^verbatim>\<open>clearAll\<close>
  reports nothing. It ends with the exception of \<^verbatim>\<open>res.json()\<close>, which it calls before
  looking at \<^verbatim>\<open>res.ok\<close>, and the status line stays empty.
\<close>

theorem clearAll_counterexample:
  "\<not> ok res_failed_text
   \<and> fst (clearAll (reply res_failed_text) page_demo) = Some SyntaxError
   \<and> statusBox (snd (clearAll (reply res_failed_text) page_demo))
       = Some \<lparr>status_text = [], status_color = []\<rparr>"
proof -
  have "clearAll (reply res_failed_text) page_demo
          = (Some SyntaxError, answered_read clear_request res_failed_text page_demo)"
    by (simp add: clearAll_unparsable [where res = res_failed_text] reply_def res_failed_text_def)
  then show ?thesis
    by (simp add: statusBox_log page_demo_fields res_failed_text_def)
qed

text \<open>
  C6, amended. When the response to \<^verbatim>\<open>clearAll\<close> reports success and its body is a JSON
  object whose message is a string, \<^verbatim>\<open>clearAll\<close> reports the success marker followed by
  that message as the status, then calls the refresh of the key list on that page
  (whose own status replaces the message when the refresh runs to its end), and the
  result area, if the page has one, ends empty. When the response reports failure
  and its body is JSON, it reports the fixed failure message ``Error clearing store'',
  in which nothing of the body appears. When the body is not JSON it reports nothing
  and ends with the exception of \<^verbatim>\<open>res.json()\<close>.
\<close>

theorem clearAll_outcome:
  "(\<forall>res kvs s. net clear_request = Fulfilled res \<and> ok res \<and> body_json res = Some (JObj kvs)
       \<and> map_of kvs (lit ''message'') = Some (JStr s) \<longrightarrow>
      clearAll net p
        = (None, (snd (loadKeys net (log (Called LoadKeys)
             (showStatus (ok_mark @ s) True (answered_read clear_request res p)))))
             \<lparr>getResult := map_option (\<lambda>_. Text []) (getResult p)\<rparr>)
      \<and> getResult (snd (clearAll net p)) = map_option (\<lambda>_. Text []) (getResult p)
      \<and> (\<exists>evs. trace (snd (clearAll net p))
            = trace p @ [Sent clear_request, Received clear_request res, BodyRead clear_request,
                         Called LoadKeys] @ evs)
      \<and> (keysList p = None \<longrightarrow>
            clearAll net p
              = (None, (log (Called LoadKeys)
                   (showStatus (ok_mark @ s) True (answered_read clear_request res p)))
                   \<lparr>getResult := map_option (\<lambda>_. Text []) (getResult p)\<rparr>)))
   \<and> (\<forall>res data. net clear_request = Fulfilled res \<and> \<not> ok res \<and> body_json res = Some data \<longrightarrow>
      clearAll net p
        = (None, showStatus (fail_mark @ lit ''Error clearing store'') False
             (answered_read clear_request res p)))
   \<and> (\<forall>res. net clear_request = Fulfilled res \<and> body_json res = None \<longrightarrow>
      clearAll net p = (Some SyntaxError, answered_read clear_request res p))"
proof -
  have 1: "clearAll net p
        = (None, (snd (loadKeys net (log (Called LoadKeys)
             (showStatus (ok_mark @ s) True (answered_read clear_request res p)))))
             \<lparr>getResult := map_option (\<lambda>_. Text []) (getResult p)\<rparr>)
      \<and> getResult (snd (clearAll net p)) = map_option (\<lambda>_. Text []) (getResult p)
      \<and> (\<exists>evs. trace (snd (clearAll net p))
            = trace p @ [Sent clear_request, Received clear_request res, BodyRead clear_request,
                         Called LoadKeys] @ evs)
      \<and> (keysList p = None \<longrightarrow>
            clearAll net p
              = (None, (log (Called LoadKeys)
                   (showStatus (ok_mark @ s) True (answered_read clear_request res p)))
                   \<lparr>getResult := map_option (\<lambda>_. Text []) (getResult p)\<rparr>))"
    if h: "net clear_request = Fulfilled res" "ok res" "body_json res = Some (JObj kvs)"
      "map_of kvs (lit ''message'') = Some (JStr s)" for res kvs s
  proof -
    have g: "get_prop (JObj kvs) (lit ''message'') = Inr (JStr s)"
      using h(4) by simp
    have t: "to_string (JStr s) = Inr s"
      by simp
    note e = clearAll_ok [where net = net and p = p, OF h(1,3,2) g t]
    have r: "getResult (snd (clearAll net p)) = map_option (\<lambda>_. Text []) (getResult p)"
      by (simp add: e)
    have tr: "\<exists>evs. trace (snd (clearAll net p))
            = trace p @ [Sent clear_request, Received clear_request res, BodyRead clear_request,
                         Called LoadKeys] @ evs"
      using trace_clearAll_ok [where net = net and p = p, OF h(1,3,2) g t] by blast
    have n: "clearAll net p
              = (None, (log (Called LoadKeys)
                   (showStatus (ok_mark @ s) True (answered_read clear_request res p)))
                   \<lparr>getResult := map_option (\<lambda>_. Text []) (getResult p)\<rparr>)"
      if "keysList p = None"
    proof -
      have "keysList (log (Called LoadKeys)
                   (showStatus (ok_mark @ s) True (answered_read clear_request res p))) = None"
        using that by (simp add: keysList_log keysList_showStatus)
      then show ?thesis
        by (simp add: e loadKeys_def loadKeys_start_def)
    qed
    from e r tr n show ?thesis by blast
  qed
  have 2: "\<forall>res data. net clear_request = Fulfilled res \<and> \<not> ok res \<and> body_json res = Some data \<longrightarrow>
      clearAll net p
        = (None, showStatus (fail_mark @ lit ''Error clearing store'') False
             (answered_read clear_request res p))"
    using clearAll_failed [where net = net and p = p] by blast
  have 3: "\<forall>res. net clear_request = Fulfilled res \<and> body_json res = None \<longrightarrow>
      clearAll net p = (Some SyntaxError, answered_read clear_request res p)"
    using clearAll_unparsable [where net = net and p = p] by blast
  from 1 2 3 show ?thesis by blast
qed

theorem clearAll_outcome_witness:
  "clearAll net_demo page_shown
     = (None, page_shown
          \<lparr>statusBox := Some \<lparr>status_text = ok_mark @ lit ''Keys loaded (2)'',
                                status_color = lit ''green''\<rparr>,
           getResult := Some (Text []),
           keysList := Some [\<lparr>li_text = lit '' a'', li_onclick = Fill_and_get (JStr (lit '' a''))\<rparr>,
                             \<lparr>li_text = lit ''b'', li_onclick = Fill_and_get (JStr (lit ''b''))\<rparr>],
           trace := [Sent clear_request, Received clear_request res_cleared,
                     BodyRead clear_request, Called LoadKeys,
                     Sent (get_request (lit ''/keys'')),
                     Received (get_request (lit ''/keys'')) res_keys,
                     BodyRead (get_request (lit ''/keys''))]\<rparr>)
   \<and> clearAll (reply res_cleared) (page_shown\<lparr>keysList := None\<rparr>)
     = (None, page_shown
          \<lparr>statusBox := Some \<lparr>status_text = ok_mark @ lit ''All keys cleared'',
                                status_color = lit ''green''\<rparr>,
           getResult := Some (Text []),
           keysList := None,
           trace := [Sent clear_request, Received clear_request res_cleared,
                     BodyRead clear_request, Called LoadKeys]\<rparr>)
   \<and> clearAll (reply res_no_detail) page_shown
     = (None, page_shown
          \<lparr>statusBox := Some \<lparr>status_text = fail_mark @ lit ''Error clearing store'',
                                status_color = lit ''red''\<rparr>,
           trace := [Sent clear_request, Received clear_request res_no_detail,
                     BodyRead clear_request]\<rparr>)"
proof -
  have r: "ok res_cleared"
    "body_json res_cleared = Some (JObj [(lit ''message'', JStr (lit ''All keys cleared''))])"
    "map_of [(lit ''message'', JStr (lit ''All keys cleared''))] (lit ''message'')
       = Some (JStr (lit ''All keys cleared''))"
    "\<not> ok res_no_detail" "body_json res_no_detail = Some (JObj [])"
    by (simp_all add: res_cleared_def res_no_detail_def)
  let ?q = "log (Called LoadKeys) (showStatus (ok_mark @ lit ''All keys cleared'') True
              (answered_read clear_request res_cleared page_shown))"
  have k: "keysList ?q
      = Some [\<lparr>li_text = lit ''old'', li_onclick = Fill_and_get (JStr (lit ''old''))\<rparr>]"
    by (simp add: keysList_log keysList_showStatus page_shown_fields)
  have b: "body_json res_keys = Some (JObj [(lit ''keys'', JArr [JStr (lit '' a''), JStr (lit ''b'')]),
                              (lit ''count'', JNum (Num 2))])"
    by (simp add: res_keys_def)
  have gk: "get_prop (JObj [(lit ''keys'', JArr [JStr (lit '' a''), JStr (lit ''b'')]),
                              (lit ''count'', JNum (Num 2))]) (lit ''keys'')
             = Inr (JArr (map JStr [lit '' a'', lit ''b'']))"
    "get_prop (JObj [(lit ''keys'', JArr [JStr (lit '' a''), JStr (lit ''b'')]),
                              (lit ''count'', JNum (Num 2))]) (lit ''count'') = Inr (JNum (Num (int 2)))"
    by (simp_all add: lit_def)
  have c2: "to_string (JNum (Num (int 2))) = Inr (digits 2)"
    by (rule to_string_count) simp
  have l: "loadKeys net_demo ?q
      = (None, showStatus (ok_mark @ lit ''Keys loaded ('' @ digits 2 @ lit '')'') True
           (?q\<lparr>trace := trace ?q @ [Sent (get_request (lit ''/keys'')),
                           Received (get_request (lit ''/keys'')) res_keys,
                           BodyRead (get_request (lit ''/keys''))],
              keysList := Some (made_entries (map JStr [lit '' a'', lit ''b'']))\<rparr>))"
    by (rule loadKeys_done [where net = net_demo, OF k net_demo_requests(1) b gk(1)
          forEach_error_strings gk(2) c2])
  have t: "lit ''Keys loaded ('' @ digits 2 @ lit '')'' = lit ''Keys loaded (2)''"
    by (simp add: digits_small lit_def)
  have 1: "clearAll net_demo page_shown
     = (None, page_shown
          \<lparr>statusBox := Some \<lparr>status_text = ok_mark @ lit ''Keys loaded (2)'',
                                status_color = lit ''green''\<rparr>,
           getResult := Some (Text []),
           keysList := Some [\<lparr>li_text = lit '' a'', li_onclick = Fill_and_get (JStr (lit '' a''))\<rparr>,
                             \<lparr>li_text = lit ''b'', li_onclick = Fill_and_get (JStr (lit ''b''))\<rparr>],
           trace := [Sent clear_request, Received clear_request res_cleared,
                     BodyRead clear_request, Called LoadKeys,
                     Sent (get_request (lit ''/keys'')),
                     Received (get_request (lit ''/keys'')) res_keys,
                     BodyRead (get_request (lit ''/keys''))]\<rparr>)"
    using clearAll_outcome [of net_demo page_shown] r(1-3)
    by (simp add: net_demo_requests l t made_entries_strings make_li_JStr)
       (simp add: showStatus_def log_def page_shown_def page_demo_def make_li_JStr)
  have 2: "clearAll (reply res_cleared) (page_shown\<lparr>keysList := None\<rparr>)
     = (None, page_shown
          \<lparr>statusBox := Some \<lparr>status_text = ok_mark @ lit ''All keys cleared'',
                                status_color = lit ''green''\<rparr>,
           getResult := Some (Text []),
           keysList := None,
           trace := [Sent clear_request, Received clear_request res_cleared,
                     BodyRead clear_request, Called LoadKeys]\<rparr>)"
  proof -
    have f: "reply res_cleared clear_request = Fulfilled res_cleared"
      "keysList (page_shown\<lparr>keysList := None\<rparr>) = None"
      by (simp_all add: reply_def)
    have "clearAll (reply res_cleared) (page_shown\<lparr>keysList := None\<rparr>)
        = (None, (log (Called LoadKeys)
             (showStatus (ok_mark @ lit ''All keys cleared'') True
                (answered_read clear_request res_cleared (page_shown\<lparr>keysList := None\<rparr>))))
             \<lparr>getResult := map_option (\<lambda>_. Text [])
                            (getResult (page_shown\<lparr>keysList := None\<rparr>))\<rparr>)"
      using clearAll_outcome [of "reply res_cleared" "page_shown\<lparr>keysList := None\<rparr>"] r(1-3) f
      by blast
    then show ?thesis
      by (simp add: showStatus_def log_def page_shown_def page_demo_def)
  qed
  have 3: "clearAll (reply res_no_detail) page_shown
     = (None, page_shown
          \<lparr>statusBox := Some \<lparr>status_text = fail_mark @ lit ''Error clearing store'',
                                status_color = lit ''red''\<rparr>,
           trace := [Sent clear_request, Received clear_request res_no_detail,
                     BodyRead clear_request]\<rparr>)"
    using clearAll_outcome [of "reply res_no_detail" page_shown] r(4,5)
    by (simp add: reply_def)
       (simp add: showStatus_def log_def page_shown_def page_demo_def)
  from 1 2 3 show ?thesis by blast
qed




text \<open>
  C8, as stated, fails: on a response whose body is not JSON, \<^verbatim>\<open>compactWAL\<close> shows no
  acknowledgment and does not refresh the statistics; the log of the chain ends with
  the reading of the body, where \<^verbatim>\<open>res.json()\<close> raises.
\<close>

theorem compactWAL_counterexample:
  "fst (compactWAL (reply res_ok_text) page_demo) = Some SyntaxError
   \<and> trace (snd (compactWAL (reply res_ok_text) page_demo))
       = [Sent compact_request, Received compact_request res_ok_text, BodyRead compact_request]"
proof -
  have "compactWAL (reply res_ok_text) page_demo
          = (Some SyntaxError, answered_read compact_request res_ok_text page_demo)"
    by (simp add: compactWAL_unparsable [where res = res_ok_text] reply_def res_ok_text_def)
  then show ?thesis
    by (simp add: trace_log page_demo_fields)
qed

text \<open>
  C8, amended. \<^verbatim>\<open>compactWAL\<close> never changes the status line. For every response whose
  body is a JSON object with a string as message or with no message, whatever its
  success indicator, it shows the completion message (the message of the body, or
  ``WAL compacted'' when the body has none or an empty one) in an \<^verbatim>\<open>alert\<close>, and after
  the alert it calls \<^verbatim>\<open>loadStats\<close>, which sends the request for the statistics and,
  when that is answered by a JSON body on a page with a statistics area, renders the
  body there.
\<close>

theorem compactWAL_outcome:
  "statusBox (snd (compactWAL net p)) = statusBox p
   \<and> (\<forall>res kvs s msg. net compact_request = Fulfilled res \<and> body_json res = Some (JObj kvs)
         \<and> (map_of kvs (lit ''message'') = Some (JStr s) \<and> s \<noteq> [] \<and> msg = s
              \<or> (map_of kvs (lit ''message'') = None
                  \<or> map_of kvs (lit ''message'') = Some (JStr []))
                 \<and> msg = lit ''WAL compacted'') \<longrightarrow>
        compactWAL net p
          = (None, snd (loadStats net (log (Called LoadStats)
               (log (Alert msg) (answered_read compact_request res p)))))
        \<and> (\<exists>evs. trace (snd (compactWAL net p))
              = trace p @ [Sent compact_request, Received compact_request res,
                           BodyRead compact_request, Alert msg, Called LoadStats,
                           Sent (get_request (lit ''/stats''))] @ evs)
        \<and> (\<forall>rs data c. net (get_request (lit ''/stats'')) = Fulfilled rs
               \<and> body_json rs = Some data \<and> statsBox p = Some c \<longrightarrow>
              compactWAL net p
                = (None, (answered_read (get_request (lit ''/stats'')) rs
                     (log (Called LoadStats)
                        (log (Alert msg) (answered_read compact_request res p))))
                     \<lparr>statsBox := Some (Pretty data)\<rparr>)))"
proof -
  have 2: "compactWAL net p
          = (None, snd (loadStats net (log (Called LoadStats)
               (log (Alert msg) (answered_read compact_request res p)))))
        \<and> (\<exists>evs. trace (snd (compactWAL net p))
              = trace p @ [Sent compact_request, Received compact_request res,
                           BodyRead compact_request, Alert msg, Called LoadStats,
                           Sent (get_request (lit ''/stats''))] @ evs)
        \<and> (\<forall>rs data c. net (get_request (lit ''/stats'')) = Fulfilled rs
               \<and> body_json rs = Some data \<and> statsBox p = Some c \<longrightarrow>
              compactWAL net p
                = (None, (answered_read (get_request (lit ''/stats'')) rs
                     (log (Called LoadStats)
                        (log (Alert msg) (answered_read compact_request res p))))
                     \<lparr>statsBox := Some (Pretty data)\<rparr>))"
    if h: "net compact_request = Fulfilled res" "body_json res = Some (JObj kvs)"
      "map_of kvs (lit ''message'') = Some (JStr s) \<and> s \<noteq> [] \<and> msg = s
         \<or> (map_of kvs (lit ''message'') = None \<or> map_of kvs (lit ''message'') = Some (JStr []))
            \<and> msg = lit ''WAL compacted''" for res kvs s msg
  proof -
    let ?m = "case map_of kvs (lit ''message'') of None \<Rightarrow> JUndefined | Some x \<Rightarrow> x"
    let ?q = "log (Called LoadStats) (log (Alert msg) (answered_read compact_request res p))"
    have g: "get_prop (JObj kvs) (lit ''message'') = Inr ?m"
      by (simp split: option.split)
    have t: "to_string (js_or ?m (JStr (lit ''WAL compacted''))) = Inr msg"
      using h(3) by (auto simp: js_or_def)
    note e = compactWAL_done [where net = net and p = p, OF h(1,2) g t]
    obtain evs where "trace (snd (loadStats net ?q))
        = trace ?q @ Sent (get_request (lit ''/stats'')) # evs"
      using trace_loadStats by blast
    then have tr: "\<exists>evs. trace (snd (compactWAL net p))
              = trace p @ [Sent compact_request, Received compact_request res,
                           BodyRead compact_request, Alert msg, Called LoadStats,
                           Sent (get_request (lit ''/stats''))] @ evs"
      by (simp add: e trace_log)
    have st: "compactWAL net p
                = (None, (answered_read (get_request (lit ''/stats'')) rs ?q)
                     \<lparr>statsBox := Some (Pretty data)\<rparr>)"
      if s: "net (get_request (lit ''/stats'')) = Fulfilled rs" "body_json rs = Some data"
        "statsBox p = Some c" for rs data c
    proof -
      have "statsBox ?q = Some c"
        using s(3) by (simp add: statsBox_log)
      then show ?thesis
        by (simp add: e loadStats_done [where net = net, OF s(1,2)])
    qed
    from e tr st show ?thesis by blast
  qed
  show ?thesis
    using 2 statusBox_compactWAL [of net p] by blast
qed

theorem compactWAL_outcome_witness:
  "compactWAL net_demo page_demo
     = (None, page_demo
          \<lparr>statsBox := Some (Pretty (JObj [(lit ''total_keys'', JNum (Num 2))])),
           trace := [Sent compact_request, Received compact_request res_compacted,
                     BodyRead compact_request, Alert (lit ''Compaction done''),
                     Called LoadStats, Sent (get_request (lit ''/stats'')),
                     Received (get_request (lit ''/stats'')) res_stats,
                     BodyRead (get_request (lit ''/stats''))]\<rparr>)
   \<and> statusBox (snd (compactWAL net_demo page_demo)) = statusBox page_demo
   \<and> compactWAL (reply res_no_detail) page_demo
     = (None, page_demo
          \<lparr>statsBox := Some (Pretty (JObj [])),
           trace := [Sent compact_request, Received compact_request res_no_detail,
                     BodyRead compact_request, Alert (lit ''WAL compacted''),
                     Called LoadStats, Sent (get_request (lit ''/stats'')),
                     Received (get_request (lit ''/stats'')) res_no_detail,
                     BodyRead (get_request (lit ''/stats''))]\<rparr>)"
proof -
  have r: "body_json res_compacted = Some (JObj [(lit ''message'', JStr (lit ''Compaction done''))])"
    "map_of [(lit ''message'', JStr (lit ''Compaction done''))] (lit ''message'')
       = Some (JStr (lit ''Compaction done''))"
    "lit ''Compaction done'' \<noteq> []"
    "body_json res_stats = Some (JObj [(lit ''total_keys'', JNum (Num 2))])"
    "body_json res_no_detail = Some (JObj [])"
    "map_of ([] :: (jsstring \<times> jsvalue) list) (lit ''message'') = None"
    by (simp_all add: res_compacted_def res_stats_def res_no_detail_def lit_def)
  have f: "reply res_no_detail compact_request = Fulfilled res_no_detail"
    "reply res_no_detail (get_request (lit ''/stats'')) = Fulfilled res_no_detail"
    by (simp_all add: reply_def)
  have 1: "compactWAL net_demo page_demo
      = (None, (answered_read (get_request (lit ''/stats'')) res_stats
           (log (Called LoadStats) (log (Alert (lit ''Compaction done''))
              (answered_read compact_request res_compacted page_demo))))
           \<lparr>statsBox := Some (Pretty (JObj [(lit ''total_keys'', JNum (Num 2))]))\<rparr>)"
    using compactWAL_outcome [of net_demo page_demo] r(1-4) net_demo_requests(3,4)
      page_demo_fields(9)
    by blast
  have 2: "statusBox (snd (compactWAL net_demo page_demo)) = statusBox page_demo"
    using compactWAL_outcome [of net_demo page_demo] by blast
  have 3: "compactWAL (reply res_no_detail) page_demo
      = (None, (answered_read (get_request (lit ''/stats'')) res_no_detail
           (log (Called LoadStats) (log (Alert (lit ''WAL compacted''))
              (answered_read compact_request res_no_detail page_demo))))
           \<lparr>statsBox := Some (Pretty (JObj []))\<rparr>)"
    using compactWAL_outcome [of "reply res_no_detail" page_demo] r(5,6) f page_demo_fields(9)
    by blast
  show ?thesis
    by (simp add: 1 2 3) (simp add: log_def page_demo_def)
qed

text \<open>
  C9. When the page has no key list element, \<^verbatim>\<open>loadKeys\<close> returns at once: it ends
  without exception and leaves the page as it was, the status line and the log
  included, so no request is sent.
\<close>

theorem loadKeys_no_list:
  "keysList p = None \<Longrightarrow> loadKeys net p = (None, p)"
  by (simp add: loadKeys_def loadKeys_start_def)

theorem loadKeys_no_list_witness:
  "loadKeys net_down (page_demo\<lparr>keysList := None\<rparr>) = (None, page_demo\<lparr>keysList := None\<rparr>)"
  using loadKeys_no_list [of "page_demo\<lparr>keysList := None\<rparr>" net_down] by simp

text \<open>
  C10. When the trimmed TTL field is not empty and \<^verbatim>\<open>parseInt\<close> yields \<open>NaN\<close> on it,
  the body of the request to \<^verbatim>\<open>/set\<close> carries \<^verbatim>\<open>ttl\<close> as \<^verbatim>\<open>null\<close>: neither \<open>NaN\<close>
  nor the field's text reaches the server.
\<close>

theorem setKey_nan_ttl_null:
  assumes "key_input p = Some k" and "value_input p = Some v" and "ttl_input p = Some t"
    and "trim t \<noteq> []" and "parseInt (trim t) = NaN"
  shows "\<exists>evs. trace (snd (setKey net p))
            = trace p @ Sent \<lparr>req_method = lit ''POST'', req_url = lit ''/set'',
                req_headers = [(lit ''Content-Type'', lit ''application/json'')],
                req_body = Some (JObj [(lit ''key'', JStr (trim k)),
                  (lit ''value'', JStr (trim v)), (lit ''ttl'', JNull)])\<rparr> # evs
          \<and> (\<forall>r. Sent r \<in> set evs \<longrightarrow> r = get_request (lit ''/keys''))"
  using setKey_sends [OF assms(1-3), of net] assms(4,5) by (simp add: set_request_def ttl_of_def)

theorem setKey_nan_ttl_null_witness:
  "trim (lit '' abc '') \<noteq> [] \<and> parseInt (trim (lit '' abc '')) = NaN
   \<and> hd (trace (snd (setKey net_down (page_demo\<lparr>ttl_input := Some (lit '' abc '')\<rparr>))))
       = Sent \<lparr>req_method = lit ''POST'', req_url = lit ''/set'',
                req_headers = [(lit ''Content-Type'', lit ''application/json'')],
                req_body = Some (JObj [(lit ''key'', JStr (lit ''alpha'')),
                  (lit ''value'', JStr (lit ''1'')), (lit ''ttl'', JNull)])\<rparr>"
proof -
  have t: "trim (lit '' abc '') = lit ''abc''"
    by (simp add: trim_def lit_def is_ws_def)
  have n: "parseInt (lit ''abc'') = NaN"
    by (simp add: parseInt_def lit_def is_ws_def is_digit_def digit_val_def)
  have k: "trim (lit ''alpha'') = lit ''alpha''" "trim (lit ''1'') = lit ''1''"
    by (simp_all add: trim_def lit_def is_ws_def)
  have ne: "lit ''abc'' \<noteq> []"
    by (simp add: lit_def)
  show ?thesis
    using setKey_nan_ttl_null [of "page_demo\<lparr>ttl_input := Some (lit '' abc '')\<rparr>"
        "lit ''alpha''" "lit ''1''" "lit '' abc ''" net_down] t n k ne
    by (auto simp: page_demo_def)
qed

end
